theory Spec2Isabelle
  imports Main
begin

section \<open>Data model\<close>

text \<open>
  The CRI messages the QoS code reads. A Go string is a \<open>string\<close>, a
  \<^verbatim>\<open>map[string]string\<close> a partial map, a slice a list. The config pointers handed to the
  functions below are modelled as the records they point to (the functions are embedded for
  non-nil configs); the nil-safe getter \<^verbatim>\<open>GetMetadata().GetName()\<close> is \<open>GetName\<close> on an
  optional metadata record.
\<close>

type_synonym annotations = "string \<rightharpoonup> string"

record QoSResource =
  Name :: string
  Class :: string

record ContainerMetadata =
  meta_Name :: string

record ContainerConfig =
  Metadata :: "ContainerMetadata option"
  Annotations :: annotations
  QosResources :: "QoSResource list"

record PodSandboxConfig =
  pod_Annotations :: annotations
  pod_QosResources :: "QoSResource list"

definition GetName :: "ContainerMetadata option \<Rightarrow> string" where
  "GetName m = (case m of None \<Rightarrow> [] | Some md \<Rightarrow> meta_Name md)"

text \<open>
  Every \<^verbatim>\<open>fmt.Errorf\<close> of the sources is one constructor, carrying the values the
  message formats; \<^verbatim>\<open>%w\<close> wrapping nests the wrapped error. \<open>ExternalError\<close> stands for an
  error produced by a callee outside the sources (annotation parsing, OCI conversion, JSON
  decoding).
\<close>

datatype error =
    UnknownPodQoSResourceType string
  | UnknownQoSResourceType string
  | UnknownClass string string
  | EmptyClassNotAllowed string
  | RdtDisabled string string
  | InvalidRdtClass string
  | BlockioDisabled string string
  | InvalidBlockioClass string
  | FailedToSetRdtClass error
  | FailedToSetBlockioClass error
  | NilPlugin
  | NoNetworksConfigured
  | FailedToParseCniConfig error
  | UnknownQuotedClass string string
  | ExternalError string

text \<open>
  Modelled from the spec: the resource-type names \<^verbatim>\<open>runtime.QoSResourceRdt\<close> and
  \<^verbatim>\<open>runtime.QoSResourceBlockio\<close> are constants of the CRI API package, which is not among
  the sources; the spec names the dimensions "rdt" and "blockio". \<open>QoSResourceNet\<close> is declared
  in the sources.
\<close>

definition QoSResourceRdt :: string where
  "QoSResourceRdt = ''rdt''"

definition QoSResourceBlockio :: string where
  "QoSResourceBlockio = ''blockio''"

definition QoSResourceNet :: string where
  "QoSResourceNet = ''net''"

text \<open>
  The enforcement back-ends (packages \<^verbatim>\<open>rdt\<close> and \<^verbatim>\<open>blockio\<close>) are callees outside the
  sources: what the CRI server asks of them is a parameter of the model. The annotation
  helper returns a class and an error, as the Go function does. \<^verbatim>\<open>IsEnabled()\<close> is asked
  twice in one call of \<^verbatim>\<open>generateContainerQoSResourceSpecOpts\<close>; the back-end state is
  one value for the whole call. Log statements have no counterpart in the model.
\<close>

record qos_backend =
  IsEnabled :: bool
  ClassExists :: "string \<Rightarrow> bool"
  ContainerClassFromAnnotations ::
    "string \<Rightarrow> annotations \<Rightarrow> annotations \<Rightarrow> string \<times> error option"

record 'b blockio_backend = qos_backend +
  ClassNameToLinuxOCI :: "string \<Rightarrow> error + 'b"

record criService =
  IgnoreRdtNotEnabledErrors :: bool
  IgnoreBlockIONotEnabledErrors :: bool

datatype 'b SpecOpts =
    WithRdt string string string
  | WithBlockIO 'b

section \<open>Class resolution for RDT and block I/O\<close>

text \<open>
  The scan loop of \<^verbatim>\<open>getContainerRdtClass\<close> and \<^verbatim>\<open>getContainerBlockioClass\<close>: it visits
  every request, and each request naming the resource type sets \<open>found\<close> and overwrites
  \<open>cls\<close>.
\<close>

fun classScan :: "string \<Rightarrow> QoSResource list \<Rightarrow> bool \<times> string \<Rightarrow> bool \<times> string" where
  "classScan resourceName [] acc = acc"
| "classScan resourceName (r # rs) acc =
     classScan resourceName rs (if Name r = resourceName then (True, Class r) else acc)"

definition classFromQosResources :: "string \<Rightarrow> QoSResource list \<Rightarrow> bool \<times> string" where
  "classFromQosResources resourceName rs = classScan resourceName rs (False, [])"

definition rdtClassCheck :: "qos_backend \<Rightarrow> string \<Rightarrow> string \<Rightarrow> error option" where
  "rdtClassCheck rdt containerName cls =
     (if cls \<noteq> [] then
        (if \<not> IsEnabled rdt then Some (RdtDisabled containerName cls)
         else if \<not> ClassExists rdt cls then Some (InvalidRdtClass cls)
         else None)
      else None)"

definition getContainerRdtClass ::
  "qos_backend \<Rightarrow> ContainerConfig \<Rightarrow> PodSandboxConfig \<Rightarrow> string \<times> error option" where
  "getContainerRdtClass rdt config sandboxConfig =
     (let containerName = GetName (Metadata config);
          (found, cls) = classFromQosResources QoSResourceRdt (QosResources config)
      in if \<not> found then
           (case ContainerClassFromAnnotations rdt containerName
                   (Annotations config) (pod_Annotations sandboxConfig) of
              (cls', Some err) \<Rightarrow> (cls', Some err)
            | (cls', None) \<Rightarrow> (cls', rdtClassCheck rdt containerName cls'))
         else (cls, rdtClassCheck rdt containerName cls))"

definition blockioClassCheck :: "'b blockio_backend \<Rightarrow> string \<Rightarrow> string \<Rightarrow> error option" where
  "blockioClassCheck blockio containerName cls =
     (if cls \<noteq> [] then
        (if \<not> IsEnabled blockio then Some (BlockioDisabled containerName cls)
         else if \<not> ClassExists blockio cls then Some (InvalidBlockioClass cls)
         else None)
      else None)"

definition getContainerBlockioClass ::
  "'b blockio_backend \<Rightarrow> ContainerConfig \<Rightarrow> PodSandboxConfig \<Rightarrow> string \<times> error option" where
  "getContainerBlockioClass blockio config sandboxConfig =
     (let containerName = GetName (Metadata config);
          (found, cls) = classFromQosResources QoSResourceBlockio (QosResources config)
      in if \<not> found then
           (case ContainerClassFromAnnotations blockio containerName
                   (Annotations config) (pod_Annotations sandboxConfig) of
              (cls', Some err) \<Rightarrow> (cls', Some err)
            | (cls', None) \<Rightarrow> (cls', blockioClassCheck blockio containerName cls'))
         else (cls, blockioClassCheck blockio containerName cls))"

section \<open>The placeholder catalogs\<close>

text \<open>
  \<^verbatim>\<open>init()\<close> fills the package-level placeholder ("dummy") catalogs: \<open>dummuGen\<close> turns a
  list of resource infos into a map from resource name to the set of its class names.
  \<open>createClassInfos\<close> is the one of the variant with the network resource, which numbers the
  classes in the capacity field; the catalogs keep the names only.
\<close>

record QOSResourceClassInfo =
  cinfo_Name :: string
  cinfo_Capacity :: nat

record QOSResourceInfo =
  info_Name :: string
  info_Mutable :: bool
  info_Classes :: "QOSResourceClassInfo list"

definition createClassInfos :: "string list \<Rightarrow> QOSResourceClassInfo list" where
  "createClassInfos names =
     map (\<lambda>(i, name). \<lparr>cinfo_Name = name, cinfo_Capacity = i\<rparr>) (enumerate 0 names)"

definition dummuGen :: "QOSResourceInfo list \<Rightarrow> (string \<rightharpoonup> string set)" where
  "dummuGen infos =
     fold (\<lambda>info out.
             out(info_Name info \<mapsto>
                   fold (\<lambda>c classes. insert (cinfo_Name c) classes) (info_Classes info) {}))
       infos Map.empty"

definition dummyPodQoSResourcesInfo :: "QOSResourceInfo list" where
  "dummyPodQoSResourcesInfo =
     [\<lparr>info_Name = ''podres-1'', info_Mutable = False,
       info_Classes = createClassInfos [''qos-a'', ''qos-b'', ''qos-c'', ''qos-d'']\<rparr>,
      \<lparr>info_Name = ''podres-2'', info_Mutable = False,
       info_Classes = createClassInfos [''cls-1'', ''cls-2'', ''cls-3'', ''cls-4'', ''cls-5'']\<rparr>]"

definition dummyContainerQoSResourcesInfo :: "QOSResourceInfo list" where
  "dummyContainerQoSResourcesInfo =
     [\<lparr>info_Name = ''dummy-1'', info_Mutable = False,
       info_Classes = createClassInfos [''class-a'', ''class-b'', ''class-c'', ''class-d'']\<rparr>,
      \<lparr>info_Name = ''dummy-2'', info_Mutable = False,
       info_Classes = createClassInfos [''platinum'', ''gold'', ''silver'', ''bronze'']\<rparr>]"

definition dummyPodQoSResources :: "string \<rightharpoonup> string set" where
  "dummyPodQoSResources = dummuGen dummyPodQoSResourcesInfo"

definition dummyContainerQoSResources :: "string \<rightharpoonup> string set" where
  "dummyContainerQoSResources = dummuGen dummyContainerQoSResourcesInfo"

section \<open>Mutation generation\<close>

text \<open>
  \<^verbatim>\<open>generateSandboxQoSResourceSpecOpts\<close> of \<^verbatim>\<open>pkg/cri/server/qos_resources_linux.go\<close>: the
  body of its loop for one request (the \<^verbatim>\<open>switch\<close>, then the empty-class test), and the
  loop, which returns at the first error. The list of mutations it returns on success is
  the empty list it started with.
\<close>

definition sandboxQoSResourceCheck :: "QoSResource \<Rightarrow> error option" where
  "sandboxQoSResourceCheck r =
     (let name = Name r; cls = Class r in
      case (case dummyPodQoSResources name of
              None \<Rightarrow> Some (UnknownPodQoSResourceType name)
            | Some cr \<Rightarrow> if cls \<notin> cr then Some (UnknownClass name cls) else None) of
        Some err \<Rightarrow> Some err
      | None \<Rightarrow> if cls = [] then Some (EmptyClassNotAllowed name) else None)"

fun sandboxQoSResourcesScan :: "QoSResource list \<Rightarrow> error option" where
  "sandboxQoSResourcesScan [] = None"
| "sandboxQoSResourcesScan (r # rs) =
     (case sandboxQoSResourceCheck r of
        Some err \<Rightarrow> Some err
      | None \<Rightarrow> sandboxQoSResourcesScan rs)"

definition generateSandboxQoSResourceSpecOpts :: "PodSandboxConfig \<Rightarrow> error + 'b SpecOpts list" where
  "generateSandboxQoSResourceSpecOpts config =
     (case sandboxQoSResourcesScan (pod_QosResources config) of
        Some err \<Rightarrow> Inl err
      | None \<Rightarrow> Inr [])"

text \<open>
  The variant of the same function in the file that adds the network resource
  (\<^verbatim>\<open>src/unnamed/part_001\<close>): a request naming \<open>QoSResourceNet\<close> skips the placeholder
  catalog and goes straight to the empty-class test.
\<close>

definition sandboxQoSResourceCheck_cni :: "QoSResource \<Rightarrow> error option" where
  "sandboxQoSResourceCheck_cni r =
     (let name = Name r; cls = Class r in
      case (if name = QoSResourceNet then None
            else (case dummyPodQoSResources name of
                    None \<Rightarrow> Some (UnknownPodQoSResourceType name)
                  | Some cr \<Rightarrow> if cls \<notin> cr then Some (UnknownClass name cls) else None)) of
        Some err \<Rightarrow> Some err
      | None \<Rightarrow> if cls = [] then Some (EmptyClassNotAllowed name) else None)"

fun sandboxQoSResourcesScan_cni :: "QoSResource list \<Rightarrow> error option" where
  "sandboxQoSResourcesScan_cni [] = None"
| "sandboxQoSResourcesScan_cni (r # rs) =
     (case sandboxQoSResourceCheck_cni r of
        Some err \<Rightarrow> Some err
      | None \<Rightarrow> sandboxQoSResourcesScan_cni rs)"

definition generateSandboxQoSResourceSpecOpts_cni ::
  "PodSandboxConfig \<Rightarrow> error + 'b SpecOpts list" where
  "generateSandboxQoSResourceSpecOpts_cni config =
     (case sandboxQoSResourcesScan_cni (pod_QosResources config) of
        Some err \<Rightarrow> Inl err
      | None \<Rightarrow> Inr [])"

text \<open>
  \<^verbatim>\<open>generateContainerQoSResourceSpecOpts\<close> (the same text in
  \<^verbatim>\<open>pkg/cri/server/qos_resources_linux.go\<close> and \<^verbatim>\<open>src/unnamed/part_001\<close>): the request
  scan, then the RDT block, then the block-I/O block, each appending to \<open>specOpts\<close> or
  returning an error. In the \<^verbatim>\<open>switch\<close> the cases for RDT and block I/O are empty (Go does
  not fall through), so such a request reaches the empty-class test directly. A third
  variant of the file (\<^verbatim>\<open>src/unnamed/part_002\<close>) has no placeholder catalogs, its default
  branch returns the unknown-resource-type error at once; it is not embedded here.
\<close>

definition containerQoSResourceCheck :: "QoSResource \<Rightarrow> error option" where
  "containerQoSResourceCheck r =
     (let name = Name r; cls = Class r in
      case (if name = QoSResourceRdt then None
            else if name = QoSResourceBlockio then None
            else (case dummyContainerQoSResources name of
                    None \<Rightarrow> Some (UnknownQoSResourceType name)
                  | Some cr \<Rightarrow> if cls \<notin> cr then Some (UnknownClass name cls) else None)) of
        Some err \<Rightarrow> Some err
      | None \<Rightarrow> if cls = [] then Some (EmptyClassNotAllowed name) else None)"

fun containerQoSResourcesScan :: "QoSResource list \<Rightarrow> error option" where
  "containerQoSResourcesScan [] = None"
| "containerQoSResourcesScan (r # rs) =
     (case containerQoSResourceCheck r of
        Some err \<Rightarrow> Some err
      | None \<Rightarrow> containerQoSResourcesScan rs)"

definition handleRdt ::
  "criService \<Rightarrow> qos_backend \<Rightarrow> ContainerConfig \<Rightarrow> PodSandboxConfig \<Rightarrow>
   'b SpecOpts list \<Rightarrow> error + 'b SpecOpts list" where
  "handleRdt c rdt config sandboxConfig specOpts =
     (case getContainerRdtClass rdt config sandboxConfig of
        (cls, Some err) \<Rightarrow>
          if \<not> IsEnabled rdt \<and> IgnoreRdtNotEnabledErrors c then Inr specOpts
          else Inl (FailedToSetRdtClass err)
      | (cls, None) \<Rightarrow>
          if cls \<noteq> [] then Inr (specOpts @ [WithRdt cls [] []]) else Inr specOpts)"

definition handleBlockIO ::
  "criService \<Rightarrow> 'b blockio_backend \<Rightarrow> ContainerConfig \<Rightarrow> PodSandboxConfig \<Rightarrow>
   'b SpecOpts list \<Rightarrow> error + 'b SpecOpts list" where
  "handleBlockIO c blockio config sandboxConfig specOpts =
     (case getContainerBlockioClass blockio config sandboxConfig of
        (cls, Some err) \<Rightarrow>
          if \<not> IsEnabled blockio \<and> IgnoreBlockIONotEnabledErrors c then Inr specOpts
          else Inl (FailedToSetBlockioClass err)
      | (cls, None) \<Rightarrow>
          if cls \<noteq> [] then
            (case ClassNameToLinuxOCI blockio cls of
               Inr linuxBlockIO \<Rightarrow> Inr (specOpts @ [WithBlockIO linuxBlockIO])
             | Inl err \<Rightarrow> Inl err)
          else Inr specOpts)"

definition generateContainerQoSResourceSpecOpts ::
  "criService \<Rightarrow> qos_backend \<Rightarrow> 'b blockio_backend \<Rightarrow> ContainerConfig \<Rightarrow> PodSandboxConfig \<Rightarrow>
   error + 'b SpecOpts list" where
  "generateContainerQoSResourceSpecOpts c rdt blockio config sandboxConfig =
     (case containerQoSResourcesScan (QosResources config) of
        Some err \<Rightarrow> Inl err
      | None \<Rightarrow>
          (case handleRdt c rdt config sandboxConfig [] of
             Inl err \<Rightarrow> Inl err
           | Inr specOpts \<Rightarrow> handleBlockIO c blockio config sandboxConfig specOpts))"

section \<open>The network class catalog\<close>

text \<open>
  \<open>cniQoSResource\<close> is a package-level map from class name to \<open>CniQoSClass\<close>; the functions
  that read or replace it take it as an argument and return the new value. The bandwidth
  parameters are a type of the CNI library (\<open>'w\<close>), held by pointer (\<open>None\<close> is nil).
  \<^verbatim>\<open>json.Unmarshal\<close> into the temporary struct is a parameter: it returns the decoded struct
  or the decode error.
\<close>

record 'w CniQoSClass =
  Capacity :: nat
  BandWidth :: "'w option"

datatype 'w NamespaceOpts = WithCapabilityBandWidth 'w

record NetworkConfList =
  Source :: string

record ConfNetwork =
  Config :: NetworkConfList

record ConfigResult =
  Networks :: "ConfNetwork list"

record 'w QosConf =
  conf_Name :: string
  Qos :: "string \<rightharpoonup> 'w CniQoSClass"

fun generateCniQoSResourceScan ::
  "(string \<rightharpoonup> 'w CniQoSClass) \<Rightarrow> QoSResource list \<Rightarrow> error + 'w NamespaceOpts list" where
  "generateCniQoSResourceScan cniQoSResource [] = Inr []"
| "generateCniQoSResourceScan cniQoSResource (r # rs) =
     (if Name r = QoSResourceNet then
        (let cls = Class r in
         case cniQoSResource cls of
           None \<Rightarrow> Inl (UnknownQuotedClass QoSResourceNet cls)
         | Some caps \<Rightarrow>
             (case BandWidth caps of
                Some bw \<Rightarrow> Inr [WithCapabilityBandWidth bw]
              | None \<Rightarrow> Inr []))
      else generateCniQoSResourceScan cniQoSResource rs)"

definition generateCniQoSResourceOpts ::
  "(string \<rightharpoonup> 'w CniQoSClass) \<Rightarrow> PodSandboxConfig \<Rightarrow> error + 'w NamespaceOpts list" where
  "generateCniQoSResourceOpts cniQoSResource config =
     generateCniQoSResourceScan cniQoSResource (pod_QosResources config)"

definition getCniQoSResources ::
  "(string \<Rightarrow> error + 'w QosConf) \<Rightarrow> ConfigResult option \<Rightarrow>
   error + (string \<rightharpoonup> 'w CniQoSClass)" where
  "getCniQoSResources unmarshal netplugin =
     (case netplugin of
        None \<Rightarrow> Inl NilPlugin
      | Some cniConfig \<Rightarrow>
          if length (Networks cniConfig) < 2 then Inl NoNetworksConfigured
          else
            (let rawConf = Source (Config (Networks cniConfig ! 1)) in
             case unmarshal rawConf of
               Inl err \<Rightarrow> Inl (FailedToParseCniConfig err)
             | Inr tmp \<Rightarrow> Inr (Qos tmp)))"

definition updateCniQoSResources ::
  "(string \<Rightarrow> error + 'w QosConf) \<Rightarrow> ConfigResult option \<Rightarrow> (string \<rightharpoonup> 'w CniQoSClass) \<Rightarrow>
   (string \<rightharpoonup> 'w CniQoSClass) \<times> error option" where
  "updateCniQoSResources unmarshal netplugin cniQoSResource =
     (case getCniQoSResources unmarshal netplugin of
        Inl err \<Rightarrow> (cniQoSResource, Some err)
      | Inr qos \<Rightarrow> (qos, None))"

section \<open>Network negotiation\<close>

text \<open>
  Modelled from the spec: the negotiation round-trip with the external policy agent
  (\<^verbatim>\<open>AdjustPodSandboxNetwork\<close>) is code of the repository that is not among the sources; only
  its description is. The draft holds the port mappings, the bandwidth setting with the
  "net" class it was derived from, the labels and the DNS settings (spec, section 3 and
  section 4.5, step 1). In the reply a field the agent did not touch is \<open>None\<close>, the
  sentinel the spec's design notes ask for.
\<close>

record NetworkDraftConfig =
  portMappings :: "(nat \<times> nat) list"
  bandwidth :: string
  netClass :: string
  labels :: "string \<rightharpoonup> string"
  dns :: "string list"

record AdjustedConfig =
  adj_portMappings :: "(nat \<times> nat) list option"
  adj_bandwidth :: "string option"
  adj_netClass :: "string option"
  adj_labels :: "(string \<rightharpoonup> string) option"
  adj_dns :: "string list option"

datatype negotiation_error = NegotiationRejected string

text \<open>
  Modelled from the spec: the merge step of the negotiation (section 4.5, step 3), which is
  not among the sources. On a successful reply, every field the agent is permitted to
  change (bandwidth, labels, DNS, port mappings) overwrites the draft's corresponding
  field; a reply naming a class unknown to the net class catalog is a negotiation failure,
  which aborts sandbox network setup instead of falling back to the draft.
\<close>

definition overwrite :: "'a \<Rightarrow> 'a option \<Rightarrow> 'a" where
  "overwrite drafted adjusted = (case adjusted of None \<Rightarrow> drafted | Some v \<Rightarrow> v)"

definition mergeAdjustedConfig ::
  "(string \<rightharpoonup> 'w CniQoSClass) \<Rightarrow> NetworkDraftConfig \<Rightarrow> AdjustedConfig \<Rightarrow>
   negotiation_error + NetworkDraftConfig" where
  "mergeAdjustedConfig cniQoSResource draft reply =
     (let merged =
        \<lparr>portMappings = overwrite (portMappings draft) (adj_portMappings reply),
         bandwidth = overwrite (bandwidth draft) (adj_bandwidth reply),
         netClass = overwrite (netClass draft) (adj_netClass reply),
         labels = overwrite (labels draft) (adj_labels reply),
         dns = overwrite (dns draft) (adj_dns reply)\<rparr>
      in case adj_netClass reply of
           None \<Rightarrow> Inr merged
         | Some cls \<Rightarrow>
             if cniQoSResource cls = None then Inl (NegotiationRejected cls) else Inr merged)"

section \<open>Reading a list of mutations\<close>

text \<open>
  The mutations of one resource type within a returned list, in the order of the list:
  \<open>rdtOpts\<close> keeps the \<^verbatim>\<open>oci.WithRdt\<close> entries, \<open>blockioOpts\<close> the \<^verbatim>\<open>oci.WithBlockIO\<close>
  entries.
\<close>

fun isRdtOpt :: "'b SpecOpts \<Rightarrow> bool" where
  "isRdtOpt (WithRdt cls l3 mb) = True"
| "isRdtOpt (WithBlockIO linuxBlockIO) = False"

definition rdtOpts :: "'b SpecOpts list \<Rightarrow> 'b SpecOpts list" where
  "rdtOpts opts = filter isRdtOpt opts"

definition blockioOpts :: "'b SpecOpts list \<Rightarrow> 'b SpecOpts list" where
  "blockioOpts opts = filter (\<lambda>opt. \<not> isRdtOpt opt) opts"

section \<open>Sample back-ends\<close>

text \<open>
  Modelled from the spec: the annotation helpers \<^verbatim>\<open>rdt.ContainerClassFromAnnotations\<close> and
  \<^verbatim>\<open>blockio.ContainerClassFromAnnotations\<close> are not among the sources. The spec says they
  derive a class name from the pod and container annotations under a key namespaced per
  resource type, and that a missing annotation yields the empty class and no error. The
  general results below hold for every helper; this one is used at concrete inputs only.
\<close>

definition classFromAnnotations ::
  "string \<Rightarrow> string \<Rightarrow> annotations \<Rightarrow> annotations \<Rightarrow> string \<times> error option" where
  "classFromAnnotations key containerName containerAnnotations podAnnotations =
     (case containerAnnotations key of
        Some cls \<Rightarrow> (cls, None)
      | None \<Rightarrow>
          (case podAnnotations key of
             Some cls \<Rightarrow> (cls, None)
           | None \<Rightarrow> ([], None)))"

definition sample_rdt :: qos_backend where
  "sample_rdt =
     \<lparr>IsEnabled = True,
      ClassExists = (\<lambda>cls. cls = ''gold'' \<or> cls = ''silver''),
      ContainerClassFromAnnotations = classFromAnnotations ''io.kubernetes.cri.rdt-class''\<rparr>"

definition sample_blockio :: "nat blockio_backend" where
  "sample_blockio =
     \<lparr>IsEnabled = True,
      ClassExists = (\<lambda>cls. cls = ''fast'' \<or> cls = ''slow''),
      ContainerClassFromAnnotations = classFromAnnotations ''io.kubernetes.cri.blockio-class'',
      ClassNameToLinuxOCI =
        (\<lambda>cls. if cls = ''fast'' then Inr 800
               else if cls = ''slow'' then Inr 100
               else Inl (ExternalError ''no such block I/O class''))\<rparr>"

definition sample_service :: criService where
  "sample_service = \<lparr>IgnoreRdtNotEnabledErrors = True, IgnoreBlockIONotEnabledErrors = True\<rparr>"

definition sample_sandbox :: PodSandboxConfig where
  "sample_sandbox = \<lparr>pod_Annotations = Map.empty, pod_QosResources = []\<rparr>"

definition sample_container :: "QoSResource list \<Rightarrow> ContainerConfig" where
  "sample_container rs =
     \<lparr>Metadata = Some \<lparr>meta_Name = ''app''\<rparr>, Annotations = Map.empty, QosResources = rs\<rparr>"

section \<open>Properties\<close>

lemma classScan_last:
  "classScan n rs acc =
     (if \<exists>r \<in> set rs. Name r = n
      then (True, Class (last (filter (\<lambda>r. Name r = n) rs)))
      else acc)"
proof (induction rs arbitrary: acc)
  case Nil
  show ?case by simp
next
  case (Cons r rs)
  show ?case
    by (auto simp: Cons.IH filter_empty_conv)
qed

lemma classFromQosResources_eq:
  "classFromQosResources n rs =
     (if \<exists>r \<in> set rs. Name r = n
      then (True, Class (last (filter (\<lambda>r. Name r = n) rs)))
      else (False, []))"
  by (simp add: classFromQosResources_def classScan_last)

lemma classFromQosResources_last:
  assumes "rs = pre @ r # post" and "Name r = n" and "\<forall>q \<in> set post. Name q \<noteq> n"
  shows "classFromQosResources n rs = (True, Class r)"
proof -
  have "filter (\<lambda>r. Name r = n) post = []"
    using assms(3) by (simp add: filter_empty_conv)
  then have "last (filter (\<lambda>r. Name r = n) rs) = r"
    using assms(1,2) by simp
  moreover have "\<exists>q \<in> set rs. Name q = n"
    using assms(1,2) by auto
  ultimately show ?thesis
    by (simp add: classFromQosResources_eq)
qed

lemma classFromQosResources_none:
  "\<forall>q \<in> set rs. Name q \<noteq> n \<Longrightarrow> classFromQosResources n rs = (False, [])"
  by (simp add: classFromQosResources_eq)

lemma dummyContainerQoSResources_eq:
  "dummyContainerQoSResources =
     [''dummy-1'' \<mapsto> {''class-a'', ''class-b'', ''class-c'', ''class-d''},
      ''dummy-2'' \<mapsto> {''platinum'', ''gold'', ''silver'', ''bronze''}]"
  by (simp add: dummyContainerQoSResources_def dummyContainerQoSResourcesInfo_def dummuGen_def
      createClassInfos_def enumerate_eq_zip insert_commute)

lemma dummyPodQoSResources_eq:
  "dummyPodQoSResources =
     [''podres-1'' \<mapsto> {''qos-a'', ''qos-b'', ''qos-c'', ''qos-d''},
      ''podres-2'' \<mapsto> {''cls-1'', ''cls-2'', ''cls-3'', ''cls-4'', ''cls-5''}]"
  by (simp add: dummyPodQoSResources_def dummyPodQoSResourcesInfo_def dummuGen_def
      createClassInfos_def enumerate_eq_zip insert_commute)

lemma dummyContainer_no_empty_class:
  "dummyContainerQoSResources n = Some cr \<Longrightarrow> [] \<notin> cr"
  by (auto simp: dummyContainerQoSResources_eq split: if_splits)

lemma dummyPod_no_empty_class:
  "dummyPodQoSResources n = Some cr \<Longrightarrow> [] \<notin> cr"
  by (auto simp: dummyPodQoSResources_eq split: if_splits)

lemma getContainerRdtClass_found:
  assumes "classFromQosResources QoSResourceRdt (QosResources config) = (True, cls)"
  shows "getContainerRdtClass rdt config sandboxConfig =
           (cls, rdtClassCheck rdt (GetName (Metadata config)) cls)"
  using assms by (simp add: getContainerRdtClass_def)

lemma getContainerRdtClass_not_found:
  assumes "classFromQosResources QoSResourceRdt (QosResources config) = (False, cls)"
  shows "getContainerRdtClass rdt config sandboxConfig =
           (case ContainerClassFromAnnotations rdt (GetName (Metadata config))
                   (Annotations config) (pod_Annotations sandboxConfig) of
              (cls', Some err) \<Rightarrow> (cls', Some err)
            | (cls', None) \<Rightarrow> (cls', rdtClassCheck rdt (GetName (Metadata config)) cls'))"
  using assms by (simp add: getContainerRdtClass_def Let_def)

lemma getContainerBlockioClass_found:
  assumes "classFromQosResources QoSResourceBlockio (QosResources config) = (True, cls)"
  shows "getContainerBlockioClass blockio config sandboxConfig =
           (cls, blockioClassCheck blockio (GetName (Metadata config)) cls)"
  using assms by (simp add: getContainerBlockioClass_def)

lemma getContainerBlockioClass_not_found:
  assumes "classFromQosResources QoSResourceBlockio (QosResources config) = (False, cls)"
  shows "getContainerBlockioClass blockio config sandboxConfig =
           (case ContainerClassFromAnnotations blockio (GetName (Metadata config))
                   (Annotations config) (pod_Annotations sandboxConfig) of
              (cls', Some err) \<Rightarrow> (cls', Some err)
            | (cls', None) \<Rightarrow> (cls', blockioClassCheck blockio (GetName (Metadata config)) cls'))"
  using assms by (simp add: getContainerBlockioClass_def Let_def)

lemma rdtClassCheck_helper_irrelevant:
  "rdtClassCheck (rdt\<lparr>ContainerClassFromAnnotations := f\<rparr>) n cls = rdtClassCheck rdt n cls"
  by (simp add: rdtClassCheck_def)

lemma blockioClassCheck_helper_irrelevant:
  "blockioClassCheck (blockio\<lparr>ContainerClassFromAnnotations := f\<rparr>) n cls =
     blockioClassCheck blockio n cls"
  by (simp add: blockioClassCheck_def)

text \<open>
  Claim C10. When a container config carries more than one structured QoS request naming
  the same resource type (RDT or block I/O), class resolution uses the class of the last
  such request in scan order: the loop records every match without stopping, so a later
  duplicate overwrites an earlier one. Here \<open>r\<close> is a request after which no request of the
  same name follows; whatever precedes it, resolution returns the class of \<open>r\<close>, together
  with the outcome of the enabled and class-exists checks on that class.
\<close>

theorem last_duplicate_request_wins:
  assumes "QosResources config = pre @ r # post"
    and "\<forall>q \<in> set post. Name q \<noteq> Name r"
  shows "(Name r = QoSResourceRdt \<longrightarrow>
            getContainerRdtClass rdt config sandboxConfig =
              (Class r, rdtClassCheck rdt (GetName (Metadata config)) (Class r))) \<and>
         (Name r = QoSResourceBlockio \<longrightarrow>
            getContainerBlockioClass blockio config sandboxConfig =
              (Class r, blockioClassCheck blockio (GetName (Metadata config)) (Class r)))"
proof (intro conjI impI)
  assume "Name r = QoSResourceRdt"
  then have "classFromQosResources QoSResourceRdt (QosResources config) = (True, Class r)"
    using assms by (intro classFromQosResources_last[where pre = pre and post = post]) auto
  then show "getContainerRdtClass rdt config sandboxConfig =
      (Class r, rdtClassCheck rdt (GetName (Metadata config)) (Class r))"
    by (rule getContainerRdtClass_found)
next
  assume "Name r = QoSResourceBlockio"
  then have "classFromQosResources QoSResourceBlockio (QosResources config) = (True, Class r)"
    using assms by (intro classFromQosResources_last[where pre = pre and post = post]) auto
  then show "getContainerBlockioClass blockio config sandboxConfig =
      (Class r, blockioClassCheck blockio (GetName (Metadata config)) (Class r))"
    by (rule getContainerBlockioClass_found)
qed

theorem last_duplicate_request_wins_witness:
  "getContainerRdtClass sample_rdt
     (sample_container [\<lparr>Name = ''rdt'', Class = ''gold''\<rparr>, \<lparr>Name = ''rdt'', Class = ''silver''\<rparr>])
     sample_sandbox = (''silver'', None) \<and>
   getContainerBlockioClass sample_blockio
     (sample_container [\<lparr>Name = ''blockio'', Class = ''slow''\<rparr>, \<lparr>Name = ''rdt'', Class = ''gold''\<rparr>,
        \<lparr>Name = ''blockio'', Class = ''fast''\<rparr>])
     sample_sandbox = (''fast'', None)"
proof -
  let ?c1 = "sample_container [\<lparr>Name = ''rdt'', Class = ''gold''\<rparr>, \<lparr>Name = ''rdt'', Class = ''silver''\<rparr>]"
  let ?c2 = "sample_container [\<lparr>Name = ''blockio'', Class = ''slow''\<rparr>, \<lparr>Name = ''rdt'', Class = ''gold''\<rparr>,
        \<lparr>Name = ''blockio'', Class = ''fast''\<rparr>]"
  have a1: "QosResources ?c1 = [\<lparr>Name = ''rdt'', Class = ''gold''\<rparr>] @ \<lparr>Name = ''rdt'', Class = ''silver''\<rparr> # []"
    by (simp add: sample_container_def)
  have a2: "QosResources ?c2 =
      [\<lparr>Name = ''blockio'', Class = ''slow''\<rparr>, \<lparr>Name = ''rdt'', Class = ''gold''\<rparr>] @
        \<lparr>Name = ''blockio'', Class = ''fast''\<rparr> # []"
    by (simp add: sample_container_def)
  have e: "\<forall>q \<in> set ([] :: QoSResource list). Name q \<noteq> n" for n
    by simp
  show ?thesis
    using last_duplicate_request_wins[OF a1 e, of sample_rdt sample_sandbox sample_blockio]
      last_duplicate_request_wins[OF a2 e, of sample_rdt sample_sandbox sample_blockio]
    by (simp add: QoSResourceRdt_def QoSResourceBlockio_def rdtClassCheck_def blockioClassCheck_def
        sample_rdt_def sample_blockio_def)
qed

lemma classFromQosResources_found_mem:
  assumes "\<exists>q \<in> set rs. Name q = n"
  shows "\<exists>q \<in> set rs. Name q = n \<and> classFromQosResources n rs = (True, Class q)"
proof -
  let ?ms = "filter (\<lambda>r. Name r = n) rs"
  have ne: "?ms \<noteq> []"
    using assms by (simp add: filter_empty_conv)
  then have "last ?ms \<in> set ?ms"
    by (rule last_in_set)
  then have "last ?ms \<in> set rs \<and> Name (last ?ms) = n"
    by simp
  moreover have "classFromQosResources n rs = (True, Class (last ?ms))"
    using assms by (simp add: classFromQosResources_eq)
  ultimately show ?thesis
    by blast
qed

text \<open>
  Claim C1. For every container config and sandbox config, the annotation fallback for RDT
  (and likewise for block I/O) is consulted only when no structured QoS request on the
  container config names that resource type. When a request names the type, the result of
  class resolution is the same for every annotation helper, every container annotation map
  and every pod annotation map, and the class returned is the class of a request naming the
  type; when none does, the class returned is the one the annotation helper reports. At the
  concrete input of the claim, request class "gold" with annotation "silver" resolves to
  "gold".
\<close>

theorem structured_request_precedes_annotations:
  "((\<exists>q \<in> set (QosResources config). Name q = QoSResourceRdt) \<longrightarrow>
      getContainerRdtClass (rdt\<lparr>ContainerClassFromAnnotations := f\<rparr>)
          (config\<lparr>Annotations := a\<rparr>) (sandboxConfig\<lparr>pod_Annotations := pa\<rparr>) =
        getContainerRdtClass rdt config sandboxConfig \<and>
      (\<exists>q \<in> set (QosResources config). Name q = QoSResourceRdt \<and>
         fst (getContainerRdtClass rdt config sandboxConfig) = Class q)) \<and>
   ((\<forall>q \<in> set (QosResources config). Name q \<noteq> QoSResourceRdt) \<longrightarrow>
      fst (getContainerRdtClass rdt config sandboxConfig) =
        fst (ContainerClassFromAnnotations rdt (GetName (Metadata config))
               (Annotations config) (pod_Annotations sandboxConfig))) \<and>
   ((\<exists>q \<in> set (QosResources config). Name q = QoSResourceBlockio) \<longrightarrow>
      getContainerBlockioClass (blockio\<lparr>ContainerClassFromAnnotations := g\<rparr>)
          (config\<lparr>Annotations := a\<rparr>) (sandboxConfig\<lparr>pod_Annotations := pa\<rparr>) =
        getContainerBlockioClass blockio config sandboxConfig \<and>
      (\<exists>q \<in> set (QosResources config). Name q = QoSResourceBlockio \<and>
         fst (getContainerBlockioClass blockio config sandboxConfig) = Class q)) \<and>
   ((\<forall>q \<in> set (QosResources config). Name q \<noteq> QoSResourceBlockio) \<longrightarrow>
      fst (getContainerBlockioClass blockio config sandboxConfig) =
        fst (ContainerClassFromAnnotations blockio (GetName (Metadata config))
               (Annotations config) (pod_Annotations sandboxConfig)))"
proof (intro conjI impI)
  assume "\<exists>q \<in> set (QosResources config). Name q = QoSResourceRdt"
  then obtain q where q: "q \<in> set (QosResources config)" "Name q = QoSResourceRdt"
    and found: "classFromQosResources QoSResourceRdt (QosResources config) = (True, Class q)"
    using classFromQosResources_found_mem by blast
  have found': "classFromQosResources QoSResourceRdt (QosResources (config\<lparr>Annotations := a\<rparr>)) =
      (True, Class q)"
    using found by simp
  show "getContainerRdtClass (rdt\<lparr>ContainerClassFromAnnotations := f\<rparr>)
          (config\<lparr>Annotations := a\<rparr>) (sandboxConfig\<lparr>pod_Annotations := pa\<rparr>) =
        getContainerRdtClass rdt config sandboxConfig"
    by (simp add: getContainerRdtClass_found[OF found] getContainerRdtClass_found[OF found']
        rdtClassCheck_helper_irrelevant)
  show "\<exists>q \<in> set (QosResources config). Name q = QoSResourceRdt \<and>
         fst (getContainerRdtClass rdt config sandboxConfig) = Class q"
    using q by (auto simp: getContainerRdtClass_found[OF found])
next
  assume "\<forall>q \<in> set (QosResources config). Name q \<noteq> QoSResourceRdt"
  then have "classFromQosResources QoSResourceRdt (QosResources config) = (False, [])"
    by (rule classFromQosResources_none)
  then show "fst (getContainerRdtClass rdt config sandboxConfig) =
        fst (ContainerClassFromAnnotations rdt (GetName (Metadata config))
               (Annotations config) (pod_Annotations sandboxConfig))"
    by (simp add: getContainerRdtClass_not_found split: prod.splits option.splits)
next
  assume "\<exists>q \<in> set (QosResources config). Name q = QoSResourceBlockio"
  then obtain q where q: "q \<in> set (QosResources config)" "Name q = QoSResourceBlockio"
    and found: "classFromQosResources QoSResourceBlockio (QosResources config) = (True, Class q)"
    using classFromQosResources_found_mem by blast
  have found': "classFromQosResources QoSResourceBlockio (QosResources (config\<lparr>Annotations := a\<rparr>)) =
      (True, Class q)"
    using found by simp
  show "getContainerBlockioClass (blockio\<lparr>ContainerClassFromAnnotations := g\<rparr>)
          (config\<lparr>Annotations := a\<rparr>) (sandboxConfig\<lparr>pod_Annotations := pa\<rparr>) =
        getContainerBlockioClass blockio config sandboxConfig"
    by (simp add: getContainerBlockioClass_found[OF found]
        getContainerBlockioClass_found[OF found'] blockioClassCheck_helper_irrelevant)
  show "\<exists>q \<in> set (QosResources config). Name q = QoSResourceBlockio \<and>
         fst (getContainerBlockioClass blockio config sandboxConfig) = Class q"
    using q by (auto simp: getContainerBlockioClass_found[OF found])
next
  assume "\<forall>q \<in> set (QosResources config). Name q \<noteq> QoSResourceBlockio"
  then have "classFromQosResources QoSResourceBlockio (QosResources config) = (False, [])"
    by (rule classFromQosResources_none)
  then show "fst (getContainerBlockioClass blockio config sandboxConfig) =
        fst (ContainerClassFromAnnotations blockio (GetName (Metadata config))
               (Annotations config) (pod_Annotations sandboxConfig))"
    by (simp add: getContainerBlockioClass_not_found split: prod.splits option.splits)
qed

theorem structured_request_precedes_annotations_witness:
  "getContainerRdtClass sample_rdt
     ((sample_container [\<lparr>Name = ''rdt'', Class = ''gold''\<rparr>])
        \<lparr>Annotations := [''io.kubernetes.cri.rdt-class'' \<mapsto> ''silver'']\<rparr>)
     sample_sandbox = (''gold'', None) \<and>
   getContainerRdtClass sample_rdt
     ((sample_container [])\<lparr>Annotations := [''io.kubernetes.cri.rdt-class'' \<mapsto> ''silver'']\<rparr>)
     sample_sandbox = (''silver'', None) \<and>
   getContainerBlockioClass sample_blockio
     ((sample_container [\<lparr>Name = ''blockio'', Class = ''fast''\<rparr>])
        \<lparr>Annotations := [''io.kubernetes.cri.blockio-class'' \<mapsto> ''slow'']\<rparr>)
     sample_sandbox = (''fast'', None) \<and>
   getContainerBlockioClass sample_blockio
     ((sample_container [])\<lparr>Annotations := [''io.kubernetes.cri.blockio-class'' \<mapsto> ''slow'']\<rparr>)
     sample_sandbox = (''slow'', None)"
proof -
  let ?gold = "sample_container [\<lparr>Name = ''rdt'', Class = ''gold''\<rparr>]"
  let ?fast = "sample_container [\<lparr>Name = ''blockio'', Class = ''fast''\<rparr>]"
  let ?silver = "[''io.kubernetes.cri.rdt-class'' \<mapsto> ''silver'']"
  let ?slow = "[''io.kubernetes.cri.blockio-class'' \<mapsto> ''slow'']"
  have rdt_found: "\<exists>q \<in> set (QosResources ?gold). Name q = QoSResourceRdt"
    by (simp add: sample_container_def QoSResourceRdt_def)
  have blockio_found: "\<exists>q \<in> set (QosResources ?fast). Name q = QoSResourceBlockio"
    by (simp add: sample_container_def QoSResourceBlockio_def)
  have none: "\<forall>q \<in> set (QosResources ((sample_container [])\<lparr>Annotations := m\<rparr>)). Name q \<noteq> n" for m n
    by (simp add: sample_container_def)
  have plain_rdt: "getContainerRdtClass sample_rdt ?gold sample_sandbox = (''gold'', None)"
    by (simp add: getContainerRdtClass_def classFromQosResources_def sample_container_def
        QoSResourceRdt_def rdtClassCheck_def sample_rdt_def)
  have plain_blockio: "getContainerBlockioClass sample_blockio ?fast sample_sandbox = (''fast'', None)"
    by (simp add: getContainerBlockioClass_def classFromQosResources_def sample_container_def
        QoSResourceBlockio_def blockioClassCheck_def sample_blockio_def)
  have snd_rdt: "snd (getContainerRdtClass sample_rdt ((sample_container [])\<lparr>Annotations := ?silver\<rparr>)
      sample_sandbox) = None"
    by (simp add: getContainerRdtClass_def classFromQosResources_def sample_container_def
        rdtClassCheck_def sample_rdt_def classFromAnnotations_def GetName_def)
  have snd_blockio: "snd (getContainerBlockioClass sample_blockio
      ((sample_container [])\<lparr>Annotations := ?slow\<rparr>) sample_sandbox) = None"
    by (simp add: getContainerBlockioClass_def classFromQosResources_def sample_container_def
        blockioClassCheck_def sample_blockio_def classFromAnnotations_def GetName_def)
  have sandbox: "sample_sandbox\<lparr>pod_Annotations := Map.empty\<rparr> = sample_sandbox"
    by (simp add: sample_sandbox_def)
  have helper_rdt: "sample_rdt\<lparr>ContainerClassFromAnnotations :=
      classFromAnnotations ''io.kubernetes.cri.rdt-class''\<rparr> = sample_rdt"
    by (simp add: sample_rdt_def)
  have helper_blockio: "sample_blockio\<lparr>ContainerClassFromAnnotations :=
      classFromAnnotations ''io.kubernetes.cri.blockio-class''\<rparr> = sample_blockio"
    by (simp add: sample_blockio_def)
  note found_case =
    structured_request_precedes_annotations[where config = ?gold and rdt = sample_rdt
      and f = "classFromAnnotations ''io.kubernetes.cri.rdt-class''" and a = ?silver
      and sandboxConfig = sample_sandbox and pa = Map.empty and blockio = sample_blockio
      and g = "classFromAnnotations ''io.kubernetes.cri.blockio-class''"]
  note found_case_blockio =
    structured_request_precedes_annotations[where config = ?fast and rdt = sample_rdt
      and f = "classFromAnnotations ''io.kubernetes.cri.rdt-class''" and a = ?slow
      and sandboxConfig = sample_sandbox and pa = Map.empty and blockio = sample_blockio
      and g = "classFromAnnotations ''io.kubernetes.cri.blockio-class''"]
  note fallback_rdt =
    structured_request_precedes_annotations[where
      config = "(sample_container [])\<lparr>Annotations := ?silver\<rparr>" and rdt = sample_rdt
      and sandboxConfig = sample_sandbox and blockio = sample_blockio]
  note fallback_blockio =
    structured_request_precedes_annotations[where
      config = "(sample_container [])\<lparr>Annotations := ?slow\<rparr>" and rdt = sample_rdt
      and sandboxConfig = sample_sandbox and blockio = sample_blockio]
  have g1: "getContainerRdtClass sample_rdt (?gold\<lparr>Annotations := ?silver\<rparr>) sample_sandbox =
      (''gold'', None)"
    using found_case rdt_found plain_rdt by (simp add: sandbox helper_rdt)
  have g2: "getContainerBlockioClass sample_blockio (?fast\<lparr>Annotations := ?slow\<rparr>) sample_sandbox =
      (''fast'', None)"
    using found_case_blockio blockio_found plain_blockio by (simp add: sandbox helper_blockio)
  have "fst (getContainerRdtClass sample_rdt ((sample_container [])\<lparr>Annotations := ?silver\<rparr>)
      sample_sandbox) = ''silver''"
    using fallback_rdt none
    by (simp add: sample_rdt_def classFromAnnotations_def sample_container_def)
  then have g3: "getContainerRdtClass sample_rdt ((sample_container [])\<lparr>Annotations := ?silver\<rparr>)
      sample_sandbox = (''silver'', None)"
    using snd_rdt by (simp add: prod_eq_iff)
  have "fst (getContainerBlockioClass sample_blockio ((sample_container [])\<lparr>Annotations := ?slow\<rparr>)
      sample_sandbox) = ''slow''"
    using fallback_blockio none
    by (simp add: sample_blockio_def classFromAnnotations_def sample_container_def)
  then have g4: "getContainerBlockioClass sample_blockio
      ((sample_container [])\<lparr>Annotations := ?slow\<rparr>) sample_sandbox = (''slow'', None)"
    using snd_blockio by (simp add: prod_eq_iff)
  show ?thesis
    using g1 g2 g3 g4 by simp
qed

subsection \<open>The request scans\<close>

lemma containerQoSResourceCheck_empty:
  assumes "Class r = []"
  shows "containerQoSResourceCheck r =
           Some (if Name r = QoSResourceRdt \<or> Name r = QoSResourceBlockio
                 then EmptyClassNotAllowed (Name r)
                 else if Name r \<in> dom dummyContainerQoSResources then UnknownClass (Name r) []
                 else UnknownQoSResourceType (Name r))"
  using assms
  by (auto simp: containerQoSResourceCheck_def Let_def dom_def
      dest: dummyContainer_no_empty_class split: option.splits)

lemma sandboxQoSResourceCheck_empty:
  assumes "Class r = []"
  shows "sandboxQoSResourceCheck r =
           Some (if Name r \<in> dom dummyPodQoSResources then UnknownClass (Name r) []
                 else UnknownPodQoSResourceType (Name r))"
  using assms
  by (auto simp: sandboxQoSResourceCheck_def Let_def dom_def
      dest: dummyPod_no_empty_class split: option.splits)

lemma sandboxQoSResourceCheck_cni_empty:
  assumes "Class r = []"
  shows "sandboxQoSResourceCheck_cni r =
           Some (if Name r = QoSResourceNet then EmptyClassNotAllowed (Name r)
                 else if Name r \<in> dom dummyPodQoSResources then UnknownClass (Name r) []
                 else UnknownPodQoSResourceType (Name r))"
  using assms
  by (auto simp: sandboxQoSResourceCheck_cni_def Let_def dom_def
      dest: dummyPod_no_empty_class split: option.splits)

lemma containerQoSResourcesScan_append:
  "containerQoSResourcesScan (pre @ post) =
     (case containerQoSResourcesScan pre of
        Some err \<Rightarrow> Some err
      | None \<Rightarrow> containerQoSResourcesScan post)"
  by (induction pre) (auto split: option.splits)

lemma sandboxQoSResourcesScan_append:
  "sandboxQoSResourcesScan (pre @ post) =
     (case sandboxQoSResourcesScan pre of
        Some err \<Rightarrow> Some err
      | None \<Rightarrow> sandboxQoSResourcesScan post)"
  by (induction pre) (auto split: option.splits)

lemma sandboxQoSResourcesScan_cni_append:
  "sandboxQoSResourcesScan_cni (pre @ post) =
     (case sandboxQoSResourcesScan_cni pre of
        Some err \<Rightarrow> Some err
      | None \<Rightarrow> sandboxQoSResourcesScan_cni post)"
  by (induction pre) (auto split: option.splits)

lemma containerQoSResourcesScan_None_iff:
  "containerQoSResourcesScan rs = None \<longleftrightarrow> (\<forall>r \<in> set rs. containerQoSResourceCheck r = None)"
  by (induction rs) (auto split: option.splits)

lemma sandboxQoSResourcesScan_None_iff:
  "sandboxQoSResourcesScan rs = None \<longleftrightarrow> (\<forall>r \<in> set rs. sandboxQoSResourceCheck r = None)"
  by (induction rs) (auto split: option.splits)

lemma sandboxQoSResourcesScan_cni_None_iff:
  "sandboxQoSResourcesScan_cni rs = None \<longleftrightarrow>
     (\<forall>r \<in> set rs. sandboxQoSResourceCheck_cni r = None)"
  by (induction rs) (auto split: option.splits)

lemma containerQoSResourcesScan_empty_class:
  assumes "r \<in> set rs" and "Class r = []"
  shows "\<exists>err. containerQoSResourcesScan rs = Some err"
proof -
  have "containerQoSResourceCheck r \<noteq> None"
    using assms(2) by (simp add: containerQoSResourceCheck_empty)
  then have "containerQoSResourcesScan rs \<noteq> None"
    using assms(1) by (auto simp: containerQoSResourcesScan_None_iff)
  then show ?thesis by auto
qed

lemma sandboxQoSResourcesScan_empty_class:
  assumes "r \<in> set rs" and "Class r = []"
  shows "\<exists>err. sandboxQoSResourcesScan rs = Some err"
proof -
  have "sandboxQoSResourceCheck r \<noteq> None"
    using assms(2) by (simp add: sandboxQoSResourceCheck_empty)
  then have "sandboxQoSResourcesScan rs \<noteq> None"
    using assms(1) by (auto simp: sandboxQoSResourcesScan_None_iff)
  then show ?thesis by auto
qed

lemma sandboxQoSResourcesScan_cni_empty_class:
  assumes "r \<in> set rs" and "Class r = []"
  shows "\<exists>err. sandboxQoSResourcesScan_cni rs = Some err"
proof -
  have "sandboxQoSResourceCheck_cni r \<noteq> None"
    using assms(2) by (simp add: sandboxQoSResourceCheck_cni_empty)
  then have "sandboxQoSResourcesScan_cni rs \<noteq> None"
    using assms(1) by (auto simp: sandboxQoSResourcesScan_cni_None_iff)
  then show ?thesis by auto
qed

lemma sandboxQoSResourceCheck_never_empty_class_error:
  "sandboxQoSResourceCheck r \<noteq> Some (EmptyClassNotAllowed n)"
  by (auto simp: sandboxQoSResourceCheck_def Let_def dest: dummyPod_no_empty_class
      split: option.splits)

lemma sandboxQoSResourcesScan_never_empty_class_error:
  "sandboxQoSResourcesScan rs \<noteq> Some (EmptyClassNotAllowed n)"
  by (induction rs) (auto simp: sandboxQoSResourceCheck_never_empty_class_error split: option.splits)

text \<open>
  Claim C2, as amended. For every config (pod sandbox or container) carrying a QoS request
  whose class string is empty, mutation generation fails: it returns an error and no
  mutations. When that request is the first one the scan rejects, the error is
  \<open>EmptyClassNotAllowed\<close> for its resource type if the type is handled before the catalog
  lookup: "rdt" or "blockio" on a container config, "net" on a sandbox config in the variant
  that knows the network resource. For a placeholder type the catalog lookup comes first and
  the error is the unknown-class error for the empty class; for an unregistered type it is
  the unknown-resource-type error. The sandbox function without the network resource sends
  every request through the catalog lookup, so it never returns \<open>EmptyClassNotAllowed\<close>.
\<close>

theorem empty_class_request_rejected:
  "(r \<in> set (QosResources config) \<and> Class r = [] \<longrightarrow>
      (\<exists>err. generateContainerQoSResourceSpecOpts c rdt blockio config sandboxConfig = Inl err)) \<and>
   (r \<in> set (pod_QosResources podConfig) \<and> Class r = [] \<longrightarrow>
      (\<exists>err. (generateSandboxQoSResourceSpecOpts podConfig :: error + 'b SpecOpts list) = Inl err) \<and>
      (\<exists>err. (generateSandboxQoSResourceSpecOpts_cni podConfig :: error + 'b SpecOpts list) = Inl err)) \<and>
   (QosResources config = pre @ r # post \<and> containerQoSResourcesScan pre = None \<and> Class r = [] \<longrightarrow>
      generateContainerQoSResourceSpecOpts c rdt blockio config sandboxConfig =
        Inl (if Name r = QoSResourceRdt \<or> Name r = QoSResourceBlockio
             then EmptyClassNotAllowed (Name r)
             else if Name r \<in> dom dummyContainerQoSResources then UnknownClass (Name r) []
             else UnknownQoSResourceType (Name r))) \<and>
   (pod_QosResources podConfig = pre @ r # post \<and> sandboxQoSResourcesScan_cni pre = None \<and>
      Class r = [] \<longrightarrow>
      (generateSandboxQoSResourceSpecOpts_cni podConfig :: error + 'b SpecOpts list) =
        Inl (if Name r = QoSResourceNet then EmptyClassNotAllowed (Name r)
             else if Name r \<in> dom dummyPodQoSResources then UnknownClass (Name r) []
             else UnknownPodQoSResourceType (Name r))) \<and>
   (pod_QosResources podConfig = pre @ r # post \<and> sandboxQoSResourcesScan pre = None \<and>
      Class r = [] \<longrightarrow>
      (generateSandboxQoSResourceSpecOpts podConfig :: error + 'b SpecOpts list) =
        Inl (if Name r \<in> dom dummyPodQoSResources then UnknownClass (Name r) []
             else UnknownPodQoSResourceType (Name r))) \<and>
   (generateSandboxQoSResourceSpecOpts podConfig :: error + 'b SpecOpts list) \<noteq>
     Inl (EmptyClassNotAllowed n)"
proof (intro conjI impI)
  assume "r \<in> set (QosResources config) \<and> Class r = []"
  then obtain err where "containerQoSResourcesScan (QosResources config) = Some err"
    using containerQoSResourcesScan_empty_class by blast
  then show "\<exists>err. generateContainerQoSResourceSpecOpts c rdt blockio config sandboxConfig = Inl err"
    by (simp add: generateContainerQoSResourceSpecOpts_def)
next
  assume a: "r \<in> set (pod_QosResources podConfig) \<and> Class r = []"
  then obtain err where "sandboxQoSResourcesScan (pod_QosResources podConfig) = Some err"
    using sandboxQoSResourcesScan_empty_class by blast
  then show "\<exists>err. (generateSandboxQoSResourceSpecOpts podConfig :: error + 'b SpecOpts list) = Inl err"
    by (simp add: generateSandboxQoSResourceSpecOpts_def)
  from a obtain err' where "sandboxQoSResourcesScan_cni (pod_QosResources podConfig) = Some err'"
    using sandboxQoSResourcesScan_cni_empty_class by blast
  then show "\<exists>err. (generateSandboxQoSResourceSpecOpts_cni podConfig :: error + 'b SpecOpts list) = Inl err"
    by (simp add: generateSandboxQoSResourceSpecOpts_cni_def)
next
  assume "QosResources config = pre @ r # post \<and> containerQoSResourcesScan pre = None \<and> Class r = []"
  then show "generateContainerQoSResourceSpecOpts c rdt blockio config sandboxConfig =
        Inl (if Name r = QoSResourceRdt \<or> Name r = QoSResourceBlockio
             then EmptyClassNotAllowed (Name r)
             else if Name r \<in> dom dummyContainerQoSResources then UnknownClass (Name r) []
             else UnknownQoSResourceType (Name r))"
    by (simp add: generateContainerQoSResourceSpecOpts_def containerQoSResourcesScan_append
        containerQoSResourceCheck_empty)
next
  assume "pod_QosResources podConfig = pre @ r # post \<and> sandboxQoSResourcesScan_cni pre = None \<and>
      Class r = []"
  then show "(generateSandboxQoSResourceSpecOpts_cni podConfig :: error + 'b SpecOpts list) =
        Inl (if Name r = QoSResourceNet then EmptyClassNotAllowed (Name r)
             else if Name r \<in> dom dummyPodQoSResources then UnknownClass (Name r) []
             else UnknownPodQoSResourceType (Name r))"
    by (simp add: generateSandboxQoSResourceSpecOpts_cni_def sandboxQoSResourcesScan_cni_append
        sandboxQoSResourceCheck_cni_empty)
next
  assume "pod_QosResources podConfig = pre @ r # post \<and> sandboxQoSResourcesScan pre = None \<and>
      Class r = []"
  then show "(generateSandboxQoSResourceSpecOpts podConfig :: error + 'b SpecOpts list) =
        Inl (if Name r \<in> dom dummyPodQoSResources then UnknownClass (Name r) []
             else UnknownPodQoSResourceType (Name r))"
    by (simp add: generateSandboxQoSResourceSpecOpts_def sandboxQoSResourcesScan_append
        sandboxQoSResourceCheck_empty)
next
  show "(generateSandboxQoSResourceSpecOpts podConfig :: error + 'b SpecOpts list) \<noteq>
      Inl (EmptyClassNotAllowed n)"
    using sandboxQoSResourcesScan_never_empty_class_error[of "pod_QosResources podConfig" n]
    by (auto simp: generateSandboxQoSResourceSpecOpts_def split: option.splits)
qed

text \<open>
  Claim C2 as stated fails: an empty class on the placeholder type "dummy-1" (container) or
  "podres-1" (sandbox) is rejected with the unknown-class error, not with
  \<open>EmptyClassNotAllowed\<close>.
\<close>

theorem empty_class_counterexample:
  "generateContainerQoSResourceSpecOpts sample_service sample_rdt sample_blockio
     (sample_container [\<lparr>Name = ''dummy-1'', Class = []\<rparr>]) sample_sandbox =
     Inl (UnknownClass ''dummy-1'' []) \<and>
   generateContainerQoSResourceSpecOpts sample_service sample_rdt sample_blockio
     (sample_container [\<lparr>Name = ''dummy-1'', Class = []\<rparr>]) sample_sandbox \<noteq>
     Inl (EmptyClassNotAllowed ''dummy-1'') \<and>
   (generateSandboxQoSResourceSpecOpts
      (sample_sandbox\<lparr>pod_QosResources := [\<lparr>Name = ''podres-1'', Class = []\<rparr>]\<rparr>)
      :: error + nat SpecOpts list) = Inl (UnknownClass ''podres-1'' []) \<and>
   (generateSandboxQoSResourceSpecOpts
      (sample_sandbox\<lparr>pod_QosResources := [\<lparr>Name = ''podres-1'', Class = []\<rparr>]\<rparr>)
      :: error + nat SpecOpts list) \<noteq> Inl (EmptyClassNotAllowed ''podres-1'')"
  by (simp add: generateContainerQoSResourceSpecOpts_def generateSandboxQoSResourceSpecOpts_def
      containerQoSResourceCheck_def sandboxQoSResourceCheck_def sample_container_def
      sample_sandbox_def QoSResourceRdt_def QoSResourceBlockio_def
      dummyContainerQoSResources_eq dummyPodQoSResources_eq)

theorem empty_class_request_rejected_witness:
  "generateContainerQoSResourceSpecOpts sample_service sample_rdt sample_blockio
     (sample_container [\<lparr>Name = ''rdt'', Class = ''gold''\<rparr>, \<lparr>Name = ''blockio'', Class = []\<rparr>])
     sample_sandbox = Inl (EmptyClassNotAllowed ''blockio'') \<and>
   (generateSandboxQoSResourceSpecOpts_cni
      (sample_sandbox\<lparr>pod_QosResources := [\<lparr>Name = ''net'', Class = []\<rparr>]\<rparr>)
      :: error + nat SpecOpts list) = Inl (EmptyClassNotAllowed ''net'') \<and>
   (generateSandboxQoSResourceSpecOpts
      (sample_sandbox\<lparr>pod_QosResources :=
         [\<lparr>Name = ''podres-1'', Class = ''qos-a''\<rparr>, \<lparr>Name = ''podres-2'', Class = []\<rparr>]\<rparr>)
      :: error + nat SpecOpts list) = Inl (UnknownClass ''podres-2'' [])"
proof -
  let ?gold = "\<lparr>Name = ''rdt'', Class = ''gold''\<rparr>"
  let ?empty = "\<lparr>Name = ''blockio'', Class = []\<rparr>"
  let ?net = "\<lparr>Name = ''net'', Class = []\<rparr>"
  let ?qos_a = "\<lparr>Name = ''podres-1'', Class = ''qos-a''\<rparr>"
  let ?pod2 = "\<lparr>Name = ''podres-2'', Class = []\<rparr>"
  have p1: "containerQoSResourcesScan [?gold] = None"
    by (simp add: containerQoSResourceCheck_def QoSResourceRdt_def)
  have p2: "sandboxQoSResourcesScan_cni [] = None"
    by simp
  have p3: "sandboxQoSResourcesScan [?qos_a] = None"
    by (simp add: sandboxQoSResourceCheck_def dummyPodQoSResources_eq)
  have h1: "QosResources (sample_container [?gold, ?empty]) = [?gold] @ ?empty # [] \<and>
      containerQoSResourcesScan [?gold] = None \<and> Class ?empty = []"
    using p1 by (simp add: sample_container_def)
  have h2: "pod_QosResources (sample_sandbox\<lparr>pod_QosResources := [?net]\<rparr>) = [] @ ?net # [] \<and>
      sandboxQoSResourcesScan_cni [] = None \<and> Class ?net = []"
    by simp
  have h3: "pod_QosResources (sample_sandbox\<lparr>pod_QosResources := [?qos_a, ?pod2]\<rparr>) =
      [?qos_a] @ ?pod2 # [] \<and> sandboxQoSResourcesScan [?qos_a] = None \<and> Class ?pod2 = []"
    using p3 by simp
  note container_case =
    empty_class_request_rejected[where c = sample_service and rdt = sample_rdt
      and blockio = sample_blockio and sandboxConfig = sample_sandbox,
      THEN conjunct2, THEN conjunct2, THEN conjunct1, rule_format, OF h1]
  note cni_case =
    empty_class_request_rejected[where c = sample_service and rdt = sample_rdt
      and blockio = sample_blockio and sandboxConfig = sample_sandbox,
      THEN conjunct2, THEN conjunct2, THEN conjunct2, THEN conjunct1, rule_format, OF h2]
  note sandbox_case =
    empty_class_request_rejected[where c = sample_service and rdt = sample_rdt
      and blockio = sample_blockio and sandboxConfig = sample_sandbox,
      THEN conjunct2, THEN conjunct2, THEN conjunct2, THEN conjunct2, THEN conjunct1,
      rule_format, OF h3]
  have g1: "generateContainerQoSResourceSpecOpts sample_service sample_rdt sample_blockio
      (sample_container [?gold, ?empty]) sample_sandbox = Inl (EmptyClassNotAllowed ''blockio'')"
    using container_case by (simp add: QoSResourceBlockio_def)
  have g2: "(generateSandboxQoSResourceSpecOpts_cni (sample_sandbox\<lparr>pod_QosResources := [?net]\<rparr>)
      :: error + nat SpecOpts list) = Inl (EmptyClassNotAllowed ''net'')"
    using cni_case by (simp add: QoSResourceNet_def)
  have g3: "(generateSandboxQoSResourceSpecOpts
      (sample_sandbox\<lparr>pod_QosResources := [?qos_a, ?pod2]\<rparr>) :: error + nat SpecOpts list) =
      Inl (UnknownClass ''podres-2'' [])"
    using sandbox_case by (simp add: dummyPodQoSResources_eq)
  show ?thesis
    using g1 g2 g3 by simp
qed

subsection \<open>The RDT and block-I/O blocks\<close>

lemma handleBlockIO_append:
  "handleBlockIO c blockio config sandboxConfig specOpts =
     (case handleBlockIO c blockio config sandboxConfig [] of
        Inl err \<Rightarrow> Inl err
      | Inr bo \<Rightarrow> Inr (specOpts @ bo))"
  by (simp add: handleBlockIO_def split: prod.splits option.splits sum.splits)

lemma generateContainerQoSResourceSpecOpts_blocks:
  fixes blockio :: "'b blockio_backend"
  shows "generateContainerQoSResourceSpecOpts c rdt blockio config sandboxConfig =
     (case containerQoSResourcesScan (QosResources config) of
        Some err \<Rightarrow> Inl err
      | None \<Rightarrow>
          (case handleRdt c rdt config sandboxConfig [] of
             Inl err \<Rightarrow> Inl err
           | Inr ro \<Rightarrow>
               (case handleBlockIO c blockio config sandboxConfig [] of
                  Inl err \<Rightarrow> Inl err
                | Inr bo \<Rightarrow> Inr (ro @ bo))))"
proof (cases "handleRdt c rdt config sandboxConfig ([] :: 'b SpecOpts list)")
  case (Inl err)
  then show ?thesis
    by (simp add: generateContainerQoSResourceSpecOpts_def split: option.splits)
next
  case (Inr ro)
  then show ?thesis
    using handleBlockIO_append[of c blockio config sandboxConfig ro]
    by (simp add: generateContainerQoSResourceSpecOpts_def split: option.splits)
qed

lemma handleRdt_shape:
  assumes "handleRdt c rdt config sandboxConfig [] = Inr ro"
  shows "ro = [] \<or> (\<exists>cls. ro = [WithRdt cls [] []])"
  using assms by (auto simp: handleRdt_def split: prod.splits option.splits if_splits)

lemma handleBlockIO_shape:
  assumes "handleBlockIO c blockio config sandboxConfig [] = Inr bo"
  shows "bo = [] \<or> (\<exists>b. bo = [WithBlockIO b])"
  using assms
  by (auto simp: handleBlockIO_def split: prod.splits option.splits if_splits sum.splits)

lemma handleRdt_no_blockio:
  assumes "handleRdt c rdt config sandboxConfig [] = Inr ro"
  shows "blockioOpts ro = []" and "rdtOpts ro = ro"
  using handleRdt_shape[OF assms] by (auto simp: blockioOpts_def rdtOpts_def)

lemma handleBlockIO_no_rdt:
  assumes "handleBlockIO c blockio config sandboxConfig [] = Inr bo"
  shows "rdtOpts bo = []" and "blockioOpts bo = bo"
  using handleBlockIO_shape[OF assms] by (auto simp: blockioOpts_def rdtOpts_def)

lemma scan_accepts_nonempty:
  assumes "containerQoSResourcesScan rs = None" and "r \<in> set rs"
  shows "Class r \<noteq> []"
proof
  assume "Class r = []"
  then have "\<exists>err. containerQoSResourcesScan rs = Some err"
    using assms(2) by (rule containerQoSResourcesScan_empty_class[rotated])
  then show False
    using assms(1) by simp
qed

lemma getContainerRdtClass_last:
  assumes "QosResources config = pre @ r # post"
    and "\<forall>q \<in> set post. Name q \<noteq> Name r"
    and "Name r = QoSResourceRdt"
  shows "getContainerRdtClass rdt config sandboxConfig =
           (Class r, rdtClassCheck rdt (GetName (Metadata config)) (Class r))"
proof -
  have "classFromQosResources QoSResourceRdt (QosResources config) = (True, Class r)"
    using assms by (intro classFromQosResources_last[where pre = pre and post = post]) auto
  then show ?thesis
    by (rule getContainerRdtClass_found)
qed

lemma getContainerBlockioClass_last:
  assumes "QosResources config = pre @ r # post"
    and "\<forall>q \<in> set post. Name q \<noteq> Name r"
    and "Name r = QoSResourceBlockio"
  shows "getContainerBlockioClass blockio config sandboxConfig =
           (Class r, blockioClassCheck blockio (GetName (Metadata config)) (Class r))"
proof -
  have "classFromQosResources QoSResourceBlockio (QosResources config) = (True, Class r)"
    using assms by (intro classFromQosResources_last[where pre = pre and post = post]) auto
  then show ?thesis
    by (rule getContainerBlockioClass_found)
qed

lemma handleRdt_requested:
  assumes "QosResources config = pre @ r # post"
    and "\<forall>q \<in> set post. Name q \<noteq> Name r"
    and "Name r = QoSResourceRdt"
    and "Class r \<noteq> []"
  shows "handleRdt c rdt config sandboxConfig specOpts =
           (if \<not> IsEnabled rdt then
              (if IgnoreRdtNotEnabledErrors c then Inr specOpts
               else Inl (FailedToSetRdtClass (RdtDisabled (GetName (Metadata config)) (Class r))))
            else if \<not> ClassExists rdt (Class r) then
              Inl (FailedToSetRdtClass (InvalidRdtClass (Class r)))
            else Inr (specOpts @ [WithRdt (Class r) [] []]))"
proof -
  have "getContainerRdtClass rdt config sandboxConfig =
      (Class r, rdtClassCheck rdt (GetName (Metadata config)) (Class r))"
    using assms(1-3) by (rule getContainerRdtClass_last)
  then show ?thesis
    using assms(4) by (simp add: handleRdt_def rdtClassCheck_def)
qed

lemma handleBlockIO_requested:
  assumes "QosResources config = pre @ r # post"
    and "\<forall>q \<in> set post. Name q \<noteq> Name r"
    and "Name r = QoSResourceBlockio"
    and "Class r \<noteq> []"
  shows "handleBlockIO c blockio config sandboxConfig specOpts =
           (if \<not> IsEnabled blockio then
              (if IgnoreBlockIONotEnabledErrors c then Inr specOpts
               else Inl (FailedToSetBlockioClass
                           (BlockioDisabled (GetName (Metadata config)) (Class r))))
            else if \<not> ClassExists blockio (Class r) then
              Inl (FailedToSetBlockioClass (InvalidBlockioClass (Class r)))
            else
              (case ClassNameToLinuxOCI blockio (Class r) of
                 Inr linuxBlockIO \<Rightarrow> Inr (specOpts @ [WithBlockIO linuxBlockIO])
               | Inl err \<Rightarrow> Inl err))"
proof -
  have "getContainerBlockioClass blockio config sandboxConfig =
      (Class r, blockioClassCheck blockio (GetName (Metadata config)) (Class r))"
    using assms(1-3) by (rule getContainerBlockioClass_last)
  then show ?thesis
    using assms(4) by (simp add: handleBlockIO_def blockioClassCheck_def)
qed

lemma handleRdt_fallback_empty:
  assumes "\<forall>q \<in> set (QosResources config). Name q \<noteq> QoSResourceRdt"
    and "ContainerClassFromAnnotations rdt (GetName (Metadata config)) (Annotations config)
           (pod_Annotations sandboxConfig) = ([], None)"
  shows "handleRdt c rdt config sandboxConfig specOpts = Inr specOpts"
proof -
  have "classFromQosResources QoSResourceRdt (QosResources config) = (False, [])"
    using assms(1) by (rule classFromQosResources_none)
  then have "getContainerRdtClass rdt config sandboxConfig = ([], None)"
    using assms(2) by (simp add: getContainerRdtClass_not_found rdtClassCheck_def)
  then show ?thesis
    by (simp add: handleRdt_def)
qed

lemma handleBlockIO_fallback_empty:
  assumes "\<forall>q \<in> set (QosResources config). Name q \<noteq> QoSResourceBlockio"
    and "ContainerClassFromAnnotations blockio (GetName (Metadata config)) (Annotations config)
           (pod_Annotations sandboxConfig) = ([], None)"
  shows "handleBlockIO c blockio config sandboxConfig specOpts = Inr specOpts"
proof -
  have "classFromQosResources QoSResourceBlockio (QosResources config) = (False, [])"
    using assms(1) by (rule classFromQosResources_none)
  then have "getContainerBlockioClass blockio config sandboxConfig = ([], None)"
    using assms(2) by (simp add: getContainerBlockioClass_not_found blockioClassCheck_def)
  then show ?thesis
    by (simp add: handleBlockIO_def)
qed

lemma getContainerRdtClass_disabled:
  assumes "\<not> IsEnabled rdt" and "getContainerRdtClass rdt config sandboxConfig = (cls, None)"
  shows "cls = []"
  using assms
  by (auto simp: getContainerRdtClass_def Let_def rdtClassCheck_def
      split: prod.splits option.splits if_splits)

lemma getContainerBlockioClass_disabled:
  assumes "\<not> IsEnabled blockio"
    and "getContainerBlockioClass blockio config sandboxConfig = (cls, None)"
  shows "cls = []"
  using assms
  by (auto simp: getContainerBlockioClass_def Let_def blockioClassCheck_def
      split: prod.splits option.splits if_splits)

lemma handleRdt_ignored:
  assumes "\<not> IsEnabled rdt" and "IgnoreRdtNotEnabledErrors c"
  shows "handleRdt c rdt config sandboxConfig specOpts = Inr specOpts"
proof (cases "getContainerRdtClass rdt config sandboxConfig")
  case (Pair cls err)
  show ?thesis
  proof (cases err)
    case None
    then have "cls = []"
      using Pair assms(1) getContainerRdtClass_disabled by blast
    then show ?thesis
      using Pair None by (simp add: handleRdt_def)
  next
    case (Some e)
    then show ?thesis
      using Pair assms by (simp add: handleRdt_def)
  qed
qed

lemma handleBlockIO_ignored:
  assumes "\<not> IsEnabled blockio" and "IgnoreBlockIONotEnabledErrors c"
  shows "handleBlockIO c blockio config sandboxConfig specOpts = Inr specOpts"
proof (cases "getContainerBlockioClass blockio config sandboxConfig")
  case (Pair cls err)
  show ?thesis
  proof (cases err)
    case None
    then have "cls = []"
      using Pair assms(1) getContainerBlockioClass_disabled by blast
    then show ?thesis
      using Pair None by (simp add: handleBlockIO_def)
  next
    case (Some e)
    then show ?thesis
      using Pair assms by (simp add: handleBlockIO_def)
  qed
qed

lemma handleRdt_flag_enabled:
  assumes "IsEnabled rdt"
  shows "handleRdt (c\<lparr>IgnoreRdtNotEnabledErrors := ignore\<rparr>) rdt config sandboxConfig specOpts =
           handleRdt c rdt config sandboxConfig specOpts"
  using assms by (simp add: handleRdt_def split: prod.splits option.splits)

lemma handleBlockIO_flag_enabled:
  assumes "IsEnabled blockio"
  shows "handleBlockIO (c\<lparr>IgnoreBlockIONotEnabledErrors := ignore\<rparr>) blockio config sandboxConfig
           specOpts = handleBlockIO c blockio config sandboxConfig specOpts"
  using assms by (simp add: handleBlockIO_def split: prod.splits option.splits)

lemma handleRdt_other_flag:
  "handleRdt (c\<lparr>IgnoreBlockIONotEnabledErrors := ignore\<rparr>) rdt config sandboxConfig specOpts =
     handleRdt c rdt config sandboxConfig specOpts"
  by (simp add: handleRdt_def split: prod.splits option.splits)

lemma handleBlockIO_other_flag:
  "handleBlockIO (c\<lparr>IgnoreRdtNotEnabledErrors := ignore\<rparr>) blockio config sandboxConfig specOpts =
     handleBlockIO c blockio config sandboxConfig specOpts"
  by (simp add: handleBlockIO_def split: prod.splits option.splits)

lemma handleRdt_fallback_class:
  assumes "\<forall>q \<in> set (QosResources config). Name q \<noteq> QoSResourceRdt"
    and "ContainerClassFromAnnotations rdt (GetName (Metadata config)) (Annotations config)
           (pod_Annotations sandboxConfig) = (cls, None)"
    and "cls \<noteq> []" and "IsEnabled rdt" and "ClassExists rdt cls"
  shows "handleRdt c rdt config sandboxConfig specOpts = Inr (specOpts @ [WithRdt cls [] []])"
proof -
  have "classFromQosResources QoSResourceRdt (QosResources config) = (False, [])"
    using assms(1) by (rule classFromQosResources_none)
  then have "getContainerRdtClass rdt config sandboxConfig = (cls, None)"
    using assms(2-5) by (simp add: getContainerRdtClass_not_found rdtClassCheck_def)
  then show ?thesis
    using assms(3) by (simp add: handleRdt_def)
qed

lemma handleBlockIO_fallback_class:
  assumes "\<forall>q \<in> set (QosResources config). Name q \<noteq> QoSResourceBlockio"
    and "ContainerClassFromAnnotations blockio (GetName (Metadata config)) (Annotations config)
           (pod_Annotations sandboxConfig) = (cls, None)"
    and "cls \<noteq> []" and "IsEnabled blockio" and "ClassExists blockio cls"
    and "ClassNameToLinuxOCI blockio cls = Inr linuxBlockIO"
  shows "handleBlockIO c blockio config sandboxConfig specOpts =
           Inr (specOpts @ [WithBlockIO linuxBlockIO])"
proof -
  have "classFromQosResources QoSResourceBlockio (QosResources config) = (False, [])"
    using assms(1) by (rule classFromQosResources_none)
  then have "getContainerBlockioClass blockio config sandboxConfig = (cls, None)"
    using assms(2-5) by (simp add: getContainerBlockioClass_not_found blockioClassCheck_def)
  then show ?thesis
    using assms(3,6) by (simp add: handleBlockIO_def)
qed

subsection \<open>Mutations per resource type\<close>

text \<open>
  Claim C3, as amended. For every container config whose request scan raises no error:
  when requests name "rdt", RDT is enabled and the class of the last such request exists in
  the RDT catalog, generation returns, provided the block-I/O block raises no error, exactly
  one RDT mutation, and it names that class; when requests name "blockio", block I/O is
  enabled and the class of the last such request exists and converts to OCI parameters,
  generation returns, provided the RDT block raises no error, exactly one block-I/O
  mutation, and it carries those parameters. A resource type that no request names takes
  its class from the annotation fallback: it yields zero mutations for that type and no
  error when the fallback reports the empty class, and, under the same provisos as for a
  request, exactly one mutation for the class the fallback reports when that class is not
  empty, the back-end is enabled and the class exists in its catalog.
\<close>

theorem valid_request_yields_one_mutation:
  fixes blockio :: "'b blockio_backend"
  shows
  "(containerQoSResourcesScan (QosResources config) = None \<and>
    QosResources config = pre @ r # post \<and> (\<forall>q \<in> set post. Name q \<noteq> Name r) \<and>
    Name r = QoSResourceRdt \<and> IsEnabled rdt \<and> ClassExists rdt (Class r) \<and>
    handleBlockIO c blockio config sandboxConfig [] = Inr bo \<longrightarrow>
      generateContainerQoSResourceSpecOpts c rdt blockio config sandboxConfig =
        Inr (WithRdt (Class r) [] [] # bo) \<and>
      rdtOpts (WithRdt (Class r) [] [] # bo) = [WithRdt (Class r) [] []]) \<and>
   (containerQoSResourcesScan (QosResources config) = None \<and>
    QosResources config = pre @ r # post \<and> (\<forall>q \<in> set post. Name q \<noteq> Name r) \<and>
    Name r = QoSResourceBlockio \<and> IsEnabled blockio \<and> ClassExists blockio (Class r) \<and>
    ClassNameToLinuxOCI blockio (Class r) = Inr linuxBlockIO \<and>
    handleRdt c rdt config sandboxConfig [] = Inr ro \<longrightarrow>
      generateContainerQoSResourceSpecOpts c rdt blockio config sandboxConfig =
        Inr (ro @ [WithBlockIO linuxBlockIO]) \<and>
      blockioOpts (ro @ [WithBlockIO linuxBlockIO]) = [WithBlockIO linuxBlockIO]) \<and>
   (containerQoSResourcesScan (QosResources config) = None \<and>
    (\<forall>q \<in> set (QosResources config). Name q \<noteq> QoSResourceRdt) \<and>
    ContainerClassFromAnnotations rdt (GetName (Metadata config)) (Annotations config)
      (pod_Annotations sandboxConfig) = ([], None) \<and>
    handleBlockIO c blockio config sandboxConfig [] = Inr bo \<longrightarrow>
      generateContainerQoSResourceSpecOpts c rdt blockio config sandboxConfig = Inr bo \<and>
      rdtOpts bo = []) \<and>
   (containerQoSResourcesScan (QosResources config) = None \<and>
    (\<forall>q \<in> set (QosResources config). Name q \<noteq> QoSResourceBlockio) \<and>
    ContainerClassFromAnnotations blockio (GetName (Metadata config)) (Annotations config)
      (pod_Annotations sandboxConfig) = ([], None) \<and>
    handleRdt c rdt config sandboxConfig [] = Inr ro \<longrightarrow>
      generateContainerQoSResourceSpecOpts c rdt blockio config sandboxConfig = Inr ro \<and>
      blockioOpts ro = []) \<and>
   (containerQoSResourcesScan (QosResources config) = None \<and>
    (\<forall>q \<in> set (QosResources config). Name q \<noteq> QoSResourceRdt) \<and>
    ContainerClassFromAnnotations rdt (GetName (Metadata config)) (Annotations config)
      (pod_Annotations sandboxConfig) = (cls, None) \<and>
    cls \<noteq> [] \<and> IsEnabled rdt \<and> ClassExists rdt cls \<and>
    handleBlockIO c blockio config sandboxConfig [] = Inr bo \<longrightarrow>
      generateContainerQoSResourceSpecOpts c rdt blockio config sandboxConfig =
        Inr (WithRdt cls [] [] # bo) \<and>
      rdtOpts (WithRdt cls [] [] # bo) = [WithRdt cls [] []]) \<and>
   (containerQoSResourcesScan (QosResources config) = None \<and>
    (\<forall>q \<in> set (QosResources config). Name q \<noteq> QoSResourceBlockio) \<and>
    ContainerClassFromAnnotations blockio (GetName (Metadata config)) (Annotations config)
      (pod_Annotations sandboxConfig) = (cls, None) \<and>
    cls \<noteq> [] \<and> IsEnabled blockio \<and> ClassExists blockio cls \<and>
    ClassNameToLinuxOCI blockio cls = Inr linuxBlockIO \<and>
    handleRdt c rdt config sandboxConfig [] = Inr ro \<longrightarrow>
      generateContainerQoSResourceSpecOpts c rdt blockio config sandboxConfig =
        Inr (ro @ [WithBlockIO linuxBlockIO]) \<and>
      blockioOpts (ro @ [WithBlockIO linuxBlockIO]) = [WithBlockIO linuxBlockIO])"
proof (intro conjI impI)
  assume a: "containerQoSResourcesScan (QosResources config) = None \<and>
    QosResources config = pre @ r # post \<and> (\<forall>q \<in> set post. Name q \<noteq> Name r) \<and>
    Name r = QoSResourceRdt \<and> IsEnabled rdt \<and> ClassExists rdt (Class r) \<and>
    handleBlockIO c blockio config sandboxConfig [] = Inr bo"
  then have scan: "containerQoSResourcesScan (QosResources config) = None"
    and mem: "r \<in> set (QosResources config)"
    and split: "QosResources config = pre @ r # post"
    and last: "\<forall>q \<in> set post. Name q \<noteq> Name r"
    and name: "Name r = QoSResourceRdt"
    and ok: "IsEnabled rdt" "ClassExists rdt (Class r)"
    and other: "handleBlockIO c blockio config sandboxConfig [] = Inr bo"
    by auto
  have "Class r \<noteq> []"
    using scan mem by (rule scan_accepts_nonempty)
  then have "handleRdt c rdt config sandboxConfig ([] :: 'b SpecOpts list) =
      Inr [WithRdt (Class r) [] []]"
    using ok by (simp add: handleRdt_requested[OF split last name])
  then show "generateContainerQoSResourceSpecOpts c rdt blockio config sandboxConfig =
      Inr (WithRdt (Class r) [] [] # bo)"
    using scan other by (simp add: generateContainerQoSResourceSpecOpts_blocks)
  show "rdtOpts (WithRdt (Class r) [] [] # bo) = [WithRdt (Class r) [] []]"
    using handleBlockIO_no_rdt(1)[OF other] by (simp add: rdtOpts_def)
next
  assume a: "containerQoSResourcesScan (QosResources config) = None \<and>
    QosResources config = pre @ r # post \<and> (\<forall>q \<in> set post. Name q \<noteq> Name r) \<and>
    Name r = QoSResourceBlockio \<and> IsEnabled blockio \<and> ClassExists blockio (Class r) \<and>
    ClassNameToLinuxOCI blockio (Class r) = Inr linuxBlockIO \<and>
    handleRdt c rdt config sandboxConfig [] = Inr ro"
  then have scan: "containerQoSResourcesScan (QosResources config) = None"
    and mem: "r \<in> set (QosResources config)"
    and split: "QosResources config = pre @ r # post"
    and last: "\<forall>q \<in> set post. Name q \<noteq> Name r"
    and name: "Name r = QoSResourceBlockio"
    and ok: "IsEnabled blockio" "ClassExists blockio (Class r)"
      "ClassNameToLinuxOCI blockio (Class r) = Inr linuxBlockIO"
    and other: "handleRdt c rdt config sandboxConfig [] = Inr ro"
    by auto
  have "Class r \<noteq> []"
    using scan mem by (rule scan_accepts_nonempty)
  then have "handleBlockIO c blockio config sandboxConfig [] = Inr [WithBlockIO linuxBlockIO]"
    using ok by (simp add: handleBlockIO_requested[OF split last name])
  then show "generateContainerQoSResourceSpecOpts c rdt blockio config sandboxConfig =
      Inr (ro @ [WithBlockIO linuxBlockIO])"
    using scan other by (simp add: generateContainerQoSResourceSpecOpts_blocks)
  show "blockioOpts (ro @ [WithBlockIO linuxBlockIO]) = [WithBlockIO linuxBlockIO]"
    using handleRdt_no_blockio(1)[OF other] by (simp add: blockioOpts_def)
next
  assume a: "containerQoSResourcesScan (QosResources config) = None \<and>
    (\<forall>q \<in> set (QosResources config). Name q \<noteq> QoSResourceRdt) \<and>
    ContainerClassFromAnnotations rdt (GetName (Metadata config)) (Annotations config)
      (pod_Annotations sandboxConfig) = ([], None) \<and>
    handleBlockIO c blockio config sandboxConfig [] = Inr bo"
  then have scan: "containerQoSResourcesScan (QosResources config) = None"
    and none: "\<forall>q \<in> set (QosResources config). Name q \<noteq> QoSResourceRdt"
    and fallback: "ContainerClassFromAnnotations rdt (GetName (Metadata config))
      (Annotations config) (pod_Annotations sandboxConfig) = ([], None)"
    and other: "handleBlockIO c blockio config sandboxConfig [] = Inr bo"
    by auto
  have "handleRdt c rdt config sandboxConfig ([] :: 'b SpecOpts list) = Inr []"
    using none fallback by (rule handleRdt_fallback_empty)
  then show "generateContainerQoSResourceSpecOpts c rdt blockio config sandboxConfig = Inr bo"
    using scan other by (simp add: generateContainerQoSResourceSpecOpts_blocks)
  show "rdtOpts bo = []"
    using other by (rule handleBlockIO_no_rdt(1))
next
  assume a: "containerQoSResourcesScan (QosResources config) = None \<and>
    (\<forall>q \<in> set (QosResources config). Name q \<noteq> QoSResourceBlockio) \<and>
    ContainerClassFromAnnotations blockio (GetName (Metadata config)) (Annotations config)
      (pod_Annotations sandboxConfig) = ([], None) \<and>
    handleRdt c rdt config sandboxConfig [] = Inr ro"
  then have scan: "containerQoSResourcesScan (QosResources config) = None"
    and none: "\<forall>q \<in> set (QosResources config). Name q \<noteq> QoSResourceBlockio"
    and fallback: "ContainerClassFromAnnotations blockio (GetName (Metadata config))
      (Annotations config) (pod_Annotations sandboxConfig) = ([], None)"
    and other: "handleRdt c rdt config sandboxConfig [] = Inr ro"
    by auto
  have "handleBlockIO c blockio config sandboxConfig [] = Inr []"
    using none fallback by (rule handleBlockIO_fallback_empty)
  then show "generateContainerQoSResourceSpecOpts c rdt blockio config sandboxConfig = Inr ro"
    using scan other by (simp add: generateContainerQoSResourceSpecOpts_blocks)
  show "blockioOpts ro = []"
    using other by (rule handleRdt_no_blockio(1))
next
  assume a: "containerQoSResourcesScan (QosResources config) = None \<and>
    (\<forall>q \<in> set (QosResources config). Name q \<noteq> QoSResourceRdt) \<and>
    ContainerClassFromAnnotations rdt (GetName (Metadata config)) (Annotations config)
      (pod_Annotations sandboxConfig) = (cls, None) \<and>
    cls \<noteq> [] \<and> IsEnabled rdt \<and> ClassExists rdt cls \<and>
    handleBlockIO c blockio config sandboxConfig [] = Inr bo"
  then have scan: "containerQoSResourcesScan (QosResources config) = None"
    and none: "\<forall>q \<in> set (QosResources config). Name q \<noteq> QoSResourceRdt"
    and fallback: "ContainerClassFromAnnotations rdt (GetName (Metadata config))
      (Annotations config) (pod_Annotations sandboxConfig) = (cls, None)"
    and ok: "cls \<noteq> []" "IsEnabled rdt" "ClassExists rdt cls"
    and other: "handleBlockIO c blockio config sandboxConfig [] = Inr bo"
    by auto
  have "handleRdt c rdt config sandboxConfig ([] :: 'b SpecOpts list) =
      Inr ([] @ [WithRdt cls [] []])"
    using none fallback ok by (rule handleRdt_fallback_class)
  then show "generateContainerQoSResourceSpecOpts c rdt blockio config sandboxConfig =
      Inr (WithRdt cls [] [] # bo)"
    using scan other by (simp add: generateContainerQoSResourceSpecOpts_blocks)
  show "rdtOpts (WithRdt cls [] [] # bo) = [WithRdt cls [] []]"
    using handleBlockIO_no_rdt(1)[OF other] by (simp add: rdtOpts_def)
next
  assume a: "containerQoSResourcesScan (QosResources config) = None \<and>
    (\<forall>q \<in> set (QosResources config). Name q \<noteq> QoSResourceBlockio) \<and>
    ContainerClassFromAnnotations blockio (GetName (Metadata config)) (Annotations config)
      (pod_Annotations sandboxConfig) = (cls, None) \<and>
    cls \<noteq> [] \<and> IsEnabled blockio \<and> ClassExists blockio cls \<and>
    ClassNameToLinuxOCI blockio cls = Inr linuxBlockIO \<and>
    handleRdt c rdt config sandboxConfig [] = Inr ro"
  then have scan: "containerQoSResourcesScan (QosResources config) = None"
    and none: "\<forall>q \<in> set (QosResources config). Name q \<noteq> QoSResourceBlockio"
    and fallback: "ContainerClassFromAnnotations blockio (GetName (Metadata config))
      (Annotations config) (pod_Annotations sandboxConfig) = (cls, None)"
    and ok: "cls \<noteq> []" "IsEnabled blockio" "ClassExists blockio cls"
      "ClassNameToLinuxOCI blockio cls = Inr linuxBlockIO"
    and other: "handleRdt c rdt config sandboxConfig [] = Inr ro"
    by auto
  have "handleBlockIO c blockio config sandboxConfig [] = Inr ([] @ [WithBlockIO linuxBlockIO])"
    using none fallback ok by (rule handleBlockIO_fallback_class)
  then show "generateContainerQoSResourceSpecOpts c rdt blockio config sandboxConfig =
      Inr (ro @ [WithBlockIO linuxBlockIO])"
    using scan other by (simp add: generateContainerQoSResourceSpecOpts_blocks)
  show "blockioOpts (ro @ [WithBlockIO linuxBlockIO]) = [WithBlockIO linuxBlockIO]"
    using handleRdt_no_blockio(1)[OF other] by (simp add: blockioOpts_def)
qed

lemma sample_fallbacks:
  "ContainerClassFromAnnotations sample_rdt n Map.empty Map.empty = ([], None)"
  "ContainerClassFromAnnotations sample_blockio n Map.empty Map.empty = ([], None)"
  by (simp_all add: sample_rdt_def sample_blockio_def classFromAnnotations_def)

text \<open>
  Claim C3 as stated fails. A config with no request at all, whose container annotation
  names the RDT class "gold", yields one RDT mutation: the annotation fallback supplies the
  class. And of two requests naming "rdt", both with classes of the catalog, only the last
  one yields a mutation.
\<close>

theorem valid_request_counterexample:
  "QosResources
     ((sample_container [])\<lparr>Annotations := [''io.kubernetes.cri.rdt-class'' \<mapsto> ''gold'']\<rparr>) = [] \<and>
   generateContainerQoSResourceSpecOpts sample_service sample_rdt sample_blockio
     ((sample_container [])\<lparr>Annotations := [''io.kubernetes.cri.rdt-class'' \<mapsto> ''gold'']\<rparr>)
     sample_sandbox = Inr [WithRdt ''gold'' [] []] \<and>
   IsEnabled sample_rdt \<and> ClassExists sample_rdt ''gold'' \<and>
   generateContainerQoSResourceSpecOpts sample_service sample_rdt sample_blockio
     (sample_container [\<lparr>Name = ''rdt'', Class = ''gold''\<rparr>, \<lparr>Name = ''rdt'', Class = ''silver''\<rparr>])
     sample_sandbox = Inr [WithRdt ''silver'' [] []]"
  by (simp add: generateContainerQoSResourceSpecOpts_def handleRdt_def handleBlockIO_def
      getContainerRdtClass_def getContainerBlockioClass_def classFromQosResources_def
      containerQoSResourceCheck_def rdtClassCheck_def blockioClassCheck_def
      sample_container_def sample_sandbox_def sample_service_def sample_rdt_def
      sample_blockio_def classFromAnnotations_def GetName_def
      QoSResourceRdt_def QoSResourceBlockio_def)

lemma sample_scan_accepts:
  "containerQoSResourcesScan (QosResources (sample_container [])) = None"
  "containerQoSResourcesScan (QosResources (sample_container [\<lparr>Name = ''rdt'', Class = ''gold''\<rparr>])) = None"
  "containerQoSResourcesScan (QosResources (sample_container [\<lparr>Name = ''blockio'', Class = ''fast''\<rparr>])) = None"
  by (simp_all add: sample_container_def containerQoSResourceCheck_def QoSResourceRdt_def
      QoSResourceBlockio_def)

lemma sample_blocks_idle:
  "handleRdt sample_service sample_rdt (sample_container []) sample_sandbox [] = Inr []"
  "handleBlockIO sample_service sample_blockio (sample_container []) sample_sandbox [] = Inr []"
  "handleRdt sample_service sample_rdt (sample_container [\<lparr>Name = ''blockio'', Class = ''fast''\<rparr>])
     sample_sandbox [] = Inr []"
  "handleBlockIO sample_service sample_blockio (sample_container [\<lparr>Name = ''rdt'', Class = ''gold''\<rparr>])
     sample_sandbox [] = Inr []"
  by (simp_all add: handleRdt_def handleBlockIO_def getContainerRdtClass_def
      getContainerBlockioClass_def classFromQosResources_def rdtClassCheck_def
      blockioClassCheck_def sample_container_def sample_sandbox_def sample_rdt_def
      sample_blockio_def classFromAnnotations_def QoSResourceRdt_def QoSResourceBlockio_def)

theorem valid_request_yields_one_mutation_witness:
  "generateContainerQoSResourceSpecOpts sample_service sample_rdt sample_blockio
     (sample_container [\<lparr>Name = ''rdt'', Class = ''gold''\<rparr>]) sample_sandbox =
     Inr [WithRdt ''gold'' [] []] \<and>
   generateContainerQoSResourceSpecOpts sample_service sample_rdt sample_blockio
     (sample_container [\<lparr>Name = ''blockio'', Class = ''fast''\<rparr>]) sample_sandbox =
     Inr [WithBlockIO 800] \<and>
   generateContainerQoSResourceSpecOpts sample_service sample_rdt sample_blockio
     (sample_container []) sample_sandbox = Inr [] \<and>
   generateContainerQoSResourceSpecOpts sample_service sample_rdt sample_blockio
     ((sample_container [])\<lparr>Annotations := [''io.kubernetes.cri.rdt-class'' \<mapsto> ''silver'']\<rparr>)
     sample_sandbox = Inr [WithRdt ''silver'' [] []] \<and>
   generateContainerQoSResourceSpecOpts sample_service sample_rdt sample_blockio
     ((sample_container [])\<lparr>Annotations := [''io.kubernetes.cri.blockio-class'' \<mapsto> ''slow'']\<rparr>)
     sample_sandbox = Inr [WithBlockIO 100]"
proof -
  let ?gold = "\<lparr>Name = ''rdt'', Class = ''gold''\<rparr>"
  let ?fast = "\<lparr>Name = ''blockio'', Class = ''fast''\<rparr>"
  let ?silver = "(sample_container [])\<lparr>Annotations := [''io.kubernetes.cri.rdt-class'' \<mapsto> ''silver'']\<rparr>"
  let ?slow = "(sample_container [])\<lparr>Annotations := [''io.kubernetes.cri.blockio-class'' \<mapsto> ''slow'']\<rparr>"
  have idle: "handleBlockIO sample_service sample_blockio ?silver sample_sandbox [] = Inr []"
    "handleRdt sample_service sample_rdt ?slow sample_sandbox [] = Inr ([] :: nat SpecOpts list)"
    by (simp_all add: handleRdt_def handleBlockIO_def getContainerRdtClass_def
        getContainerBlockioClass_def classFromQosResources_def rdtClassCheck_def
        blockioClassCheck_def sample_container_def sample_sandbox_def sample_rdt_def
        sample_blockio_def classFromAnnotations_def)
  have h5: "containerQoSResourcesScan (QosResources ?silver) = None \<and>
      (\<forall>q \<in> set (QosResources ?silver). Name q \<noteq> QoSResourceRdt) \<and>
      ContainerClassFromAnnotations sample_rdt (GetName (Metadata ?silver))
        (Annotations ?silver) (pod_Annotations sample_sandbox) = (''silver'', None) \<and>
      ''silver'' \<noteq> [] \<and> IsEnabled sample_rdt \<and> ClassExists sample_rdt ''silver'' \<and>
      handleBlockIO sample_service sample_blockio ?silver sample_sandbox [] = Inr []"
    using idle(1)
    by (simp add: sample_container_def sample_sandbox_def sample_rdt_def classFromAnnotations_def)
  have h6: "containerQoSResourcesScan (QosResources ?slow) = None \<and>
      (\<forall>q \<in> set (QosResources ?slow). Name q \<noteq> QoSResourceBlockio) \<and>
      ContainerClassFromAnnotations sample_blockio (GetName (Metadata ?slow))
        (Annotations ?slow) (pod_Annotations sample_sandbox) = (''slow'', None) \<and>
      ''slow'' \<noteq> [] \<and> IsEnabled sample_blockio \<and> ClassExists sample_blockio ''slow'' \<and>
      ClassNameToLinuxOCI sample_blockio ''slow'' = Inr 100 \<and>
      handleRdt sample_service sample_rdt ?slow sample_sandbox [] =
        Inr ([] :: nat SpecOpts list)"
    using idle(2)
    by (simp add: sample_container_def sample_sandbox_def sample_blockio_def
        classFromAnnotations_def)
  have h1: "containerQoSResourcesScan (QosResources (sample_container [?gold])) = None \<and>
      QosResources (sample_container [?gold]) = [] @ ?gold # [] \<and>
      (\<forall>q \<in> set []. Name q \<noteq> Name ?gold) \<and>
      Name ?gold = QoSResourceRdt \<and> IsEnabled sample_rdt \<and>
      ClassExists sample_rdt (Class ?gold) \<and>
      handleBlockIO sample_service sample_blockio (sample_container [?gold]) sample_sandbox [] =
        Inr []"
    using sample_scan_accepts(2) sample_blocks_idle(4)
    by (simp add: sample_container_def QoSResourceRdt_def sample_rdt_def)
  have h2: "containerQoSResourcesScan (QosResources (sample_container [?fast])) = None \<and>
      QosResources (sample_container [?fast]) = [] @ ?fast # [] \<and>
      (\<forall>q \<in> set []. Name q \<noteq> Name ?fast) \<and>
      Name ?fast = QoSResourceBlockio \<and> IsEnabled sample_blockio \<and>
      ClassExists sample_blockio (Class ?fast) \<and>
      ClassNameToLinuxOCI sample_blockio (Class ?fast) = Inr 800 \<and>
      handleRdt sample_service sample_rdt (sample_container [?fast]) sample_sandbox [] = Inr []"
    using sample_scan_accepts(3) sample_blocks_idle(3)
    by (simp add: sample_container_def QoSResourceBlockio_def sample_blockio_def)
  have h3: "containerQoSResourcesScan (QosResources (sample_container [])) = None \<and>
      (\<forall>q \<in> set (QosResources (sample_container [])). Name q \<noteq> QoSResourceRdt) \<and>
      ContainerClassFromAnnotations sample_rdt (GetName (Metadata (sample_container [])))
        (Annotations (sample_container [])) (pod_Annotations sample_sandbox) = ([], None) \<and>
      handleBlockIO sample_service sample_blockio (sample_container []) sample_sandbox [] = Inr []"
    using sample_scan_accepts(1) sample_blocks_idle(2) sample_fallbacks(1)
    by (simp add: sample_container_def sample_sandbox_def)
  have h4: "containerQoSResourcesScan (QosResources (sample_container [])) = None \<and>
      (\<forall>q \<in> set (QosResources (sample_container [])). Name q \<noteq> QoSResourceBlockio) \<and>
      ContainerClassFromAnnotations sample_blockio (GetName (Metadata (sample_container [])))
        (Annotations (sample_container [])) (pod_Annotations sample_sandbox) = ([], None) \<and>
      handleRdt sample_service sample_rdt (sample_container []) sample_sandbox [] = Inr []"
    using sample_scan_accepts(1) sample_blocks_idle(1) sample_fallbacks(2)
    by (simp add: sample_container_def sample_sandbox_def)
  note rdt_case =
    valid_request_yields_one_mutation[THEN conjunct1, rule_format, OF h1]
  note blockio_case =
    valid_request_yields_one_mutation[THEN conjunct2, THEN conjunct1, rule_format, OF h2]
  note no_rdt_case =
    valid_request_yields_one_mutation[THEN conjunct2, THEN conjunct2, THEN conjunct1,
      rule_format, OF h3]
  note no_blockio_case =
    valid_request_yields_one_mutation[THEN conjunct2, THEN conjunct2, THEN conjunct2,
      THEN conjunct1, rule_format, OF h4]
  note rdt_fallback_case =
    valid_request_yields_one_mutation[THEN conjunct2, THEN conjunct2, THEN conjunct2,
      THEN conjunct2, THEN conjunct1, rule_format, OF h5]
  note blockio_fallback_case =
    valid_request_yields_one_mutation[THEN conjunct2, THEN conjunct2, THEN conjunct2,
      THEN conjunct2, THEN conjunct2, rule_format, OF h6]
  show ?thesis
    using rdt_case blockio_case no_rdt_case no_blockio_case rdt_fallback_case
      blockio_fallback_case
    by simp
qed

subsection \<open>The ignore-not-enabled flags\<close>

lemma generateContainerQoSResourceSpecOpts_rdt_flag:
  fixes blockio :: "'b blockio_backend"
  assumes "IsEnabled rdt"
  shows "generateContainerQoSResourceSpecOpts (c\<lparr>IgnoreRdtNotEnabledErrors := ignore\<rparr>) rdt blockio
           config sandboxConfig =
         generateContainerQoSResourceSpecOpts c rdt blockio config sandboxConfig"
  by (simp add: generateContainerQoSResourceSpecOpts_blocks handleRdt_flag_enabled[OF assms]
      handleBlockIO_other_flag split: option.splits sum.splits)

lemma generateContainerQoSResourceSpecOpts_blockio_flag:
  fixes blockio :: "'b blockio_backend"
  assumes "IsEnabled blockio"
  shows "generateContainerQoSResourceSpecOpts (c\<lparr>IgnoreBlockIONotEnabledErrors := ignore\<rparr>) rdt
           blockio config sandboxConfig =
         generateContainerQoSResourceSpecOpts c rdt blockio config sandboxConfig"
  by (simp add: generateContainerQoSResourceSpecOpts_blocks handleBlockIO_flag_enabled[OF assms]
      handleRdt_other_flag split: option.splits sum.splits)

text \<open>
  Claim C4, as amended. For every container config whose request scan raises no error and
  whose last request naming "rdt" names a class absent from the RDT catalog while RDT is
  enabled, generation fails with the unknown-class error (wrapped as the RDT failure),
  whatever the value of the ignore-RDT-not-enabled flag; the same holds for block I/O,
  provided the RDT block, which runs first, raised no error. With a back-end enabled its
  ignore flag has no effect on the result at all. The flag is read only when the back-end
  reports not enabled: then, with the flag set, the block of that back-end adds neither an
  error nor a mutation, whichever error class resolution returned.
\<close>

theorem unknown_class_not_ignored:
  fixes blockio :: "'b blockio_backend"
  shows
  "(containerQoSResourcesScan (QosResources config) = None \<and>
    QosResources config = pre @ r # post \<and> (\<forall>q \<in> set post. Name q \<noteq> Name r) \<and>
    Name r = QoSResourceRdt \<and> IsEnabled rdt \<and> \<not> ClassExists rdt (Class r) \<longrightarrow>
      generateContainerQoSResourceSpecOpts (c\<lparr>IgnoreRdtNotEnabledErrors := ignore\<rparr>) rdt blockio
        config sandboxConfig = Inl (FailedToSetRdtClass (InvalidRdtClass (Class r)))) \<and>
   (containerQoSResourcesScan (QosResources config) = None \<and>
    QosResources config = pre @ r # post \<and> (\<forall>q \<in> set post. Name q \<noteq> Name r) \<and>
    Name r = QoSResourceBlockio \<and> IsEnabled blockio \<and> \<not> ClassExists blockio (Class r) \<and>
    handleRdt c rdt config sandboxConfig [] = Inr (ro :: 'b SpecOpts list) \<longrightarrow>
      generateContainerQoSResourceSpecOpts (c\<lparr>IgnoreBlockIONotEnabledErrors := ignore\<rparr>) rdt
        blockio config sandboxConfig =
        Inl (FailedToSetBlockioClass (InvalidBlockioClass (Class r)))) \<and>
   (IsEnabled rdt \<longrightarrow>
      generateContainerQoSResourceSpecOpts (c\<lparr>IgnoreRdtNotEnabledErrors := ignore\<rparr>) rdt blockio
        config sandboxConfig =
      generateContainerQoSResourceSpecOpts c rdt blockio config sandboxConfig) \<and>
   (IsEnabled blockio \<longrightarrow>
      generateContainerQoSResourceSpecOpts (c\<lparr>IgnoreBlockIONotEnabledErrors := ignore\<rparr>) rdt
        blockio config sandboxConfig =
      generateContainerQoSResourceSpecOpts c rdt blockio config sandboxConfig) \<and>
   (containerQoSResourcesScan (QosResources config) = None \<and> \<not> IsEnabled rdt \<and>
    IgnoreRdtNotEnabledErrors c \<longrightarrow>
      generateContainerQoSResourceSpecOpts c rdt blockio config sandboxConfig =
      handleBlockIO c blockio config sandboxConfig []) \<and>
   (containerQoSResourcesScan (QosResources config) = None \<and> \<not> IsEnabled blockio \<and>
    IgnoreBlockIONotEnabledErrors c \<longrightarrow>
      generateContainerQoSResourceSpecOpts c rdt blockio config sandboxConfig =
      handleRdt c rdt config sandboxConfig [])"
proof (intro conjI impI)
  assume "containerQoSResourcesScan (QosResources config) = None \<and>
    QosResources config = pre @ r # post \<and> (\<forall>q \<in> set post. Name q \<noteq> Name r) \<and>
    Name r = QoSResourceRdt \<and> IsEnabled rdt \<and> \<not> ClassExists rdt (Class r)"
  then have scan: "containerQoSResourcesScan (QosResources config) = None"
    and mem: "r \<in> set (QosResources config)"
    and split: "QosResources config = pre @ r # post"
    and last: "\<forall>q \<in> set post. Name q \<noteq> Name r"
    and name: "Name r = QoSResourceRdt"
    and state: "IsEnabled rdt" "\<not> ClassExists rdt (Class r)"
    by auto
  have "Class r \<noteq> []"
    using scan mem by (rule scan_accepts_nonempty)
  then have "handleRdt (c\<lparr>IgnoreRdtNotEnabledErrors := ignore\<rparr>) rdt config sandboxConfig
      ([] :: 'b SpecOpts list) = Inl (FailedToSetRdtClass (InvalidRdtClass (Class r)))"
    using state by (simp add: handleRdt_requested[OF split last name])
  then show "generateContainerQoSResourceSpecOpts (c\<lparr>IgnoreRdtNotEnabledErrors := ignore\<rparr>) rdt
      blockio config sandboxConfig = Inl (FailedToSetRdtClass (InvalidRdtClass (Class r)))"
    using scan by (simp add: generateContainerQoSResourceSpecOpts_blocks)
next
  assume "containerQoSResourcesScan (QosResources config) = None \<and>
    QosResources config = pre @ r # post \<and> (\<forall>q \<in> set post. Name q \<noteq> Name r) \<and>
    Name r = QoSResourceBlockio \<and> IsEnabled blockio \<and> \<not> ClassExists blockio (Class r) \<and>
    handleRdt c rdt config sandboxConfig [] = Inr ro"
  then have scan: "containerQoSResourcesScan (QosResources config) = None"
    and mem: "r \<in> set (QosResources config)"
    and split: "QosResources config = pre @ r # post"
    and last: "\<forall>q \<in> set post. Name q \<noteq> Name r"
    and name: "Name r = QoSResourceBlockio"
    and state: "IsEnabled blockio" "\<not> ClassExists blockio (Class r)"
    and other: "handleRdt c rdt config sandboxConfig [] = Inr ro"
    by auto
  have "Class r \<noteq> []"
    using scan mem by (rule scan_accepts_nonempty)
  then have "handleBlockIO (c\<lparr>IgnoreBlockIONotEnabledErrors := ignore\<rparr>) blockio config
      sandboxConfig [] = Inl (FailedToSetBlockioClass (InvalidBlockioClass (Class r)))"
    using state by (simp add: handleBlockIO_requested[OF split last name])
  then show "generateContainerQoSResourceSpecOpts (c\<lparr>IgnoreBlockIONotEnabledErrors := ignore\<rparr>)
      rdt blockio config sandboxConfig =
      Inl (FailedToSetBlockioClass (InvalidBlockioClass (Class r)))"
    using scan other by (simp add: generateContainerQoSResourceSpecOpts_blocks handleRdt_other_flag)
next
  assume "IsEnabled rdt"
  then show "generateContainerQoSResourceSpecOpts (c\<lparr>IgnoreRdtNotEnabledErrors := ignore\<rparr>) rdt
      blockio config sandboxConfig =
      generateContainerQoSResourceSpecOpts c rdt blockio config sandboxConfig"
    by (rule generateContainerQoSResourceSpecOpts_rdt_flag)
next
  assume "IsEnabled blockio"
  then show "generateContainerQoSResourceSpecOpts (c\<lparr>IgnoreBlockIONotEnabledErrors := ignore\<rparr>)
      rdt blockio config sandboxConfig =
      generateContainerQoSResourceSpecOpts c rdt blockio config sandboxConfig"
    by (rule generateContainerQoSResourceSpecOpts_blockio_flag)
next
  assume a: "containerQoSResourcesScan (QosResources config) = None \<and> \<not> IsEnabled rdt \<and>
    IgnoreRdtNotEnabledErrors c"
  then have "handleRdt c rdt config sandboxConfig ([] :: 'b SpecOpts list) = Inr []"
    by (simp add: handleRdt_ignored)
  then show "generateContainerQoSResourceSpecOpts c rdt blockio config sandboxConfig =
      handleBlockIO c blockio config sandboxConfig []"
    using a by (simp add: generateContainerQoSResourceSpecOpts_blocks split: sum.splits)
next
  assume a: "containerQoSResourcesScan (QosResources config) = None \<and> \<not> IsEnabled blockio \<and>
    IgnoreBlockIONotEnabledErrors c"
  then have "handleBlockIO c blockio config sandboxConfig [] = Inr []"
    by (simp add: handleBlockIO_ignored)
  then show "generateContainerQoSResourceSpecOpts c rdt blockio config sandboxConfig =
      handleRdt c rdt config sandboxConfig []"
    using a by (simp add: generateContainerQoSResourceSpecOpts_blocks split: sum.splits)
qed

text \<open>
  Claim C4 as stated fails. A config that requests the absent RDT class "nope" and, in a
  later request, the class "gold" of the catalog is accepted, since only the last request is
  resolved; and a config whose first request names an unregistered resource type fails
  with the unknown-resource-type error before the RDT class is looked at.
\<close>

theorem unknown_class_counterexample:
  "IsEnabled sample_rdt \<and> \<not> ClassExists sample_rdt ''nope'' \<and>
   generateContainerQoSResourceSpecOpts sample_service sample_rdt sample_blockio
     (sample_container [\<lparr>Name = ''rdt'', Class = ''nope''\<rparr>, \<lparr>Name = ''rdt'', Class = ''gold''\<rparr>])
     sample_sandbox = Inr [WithRdt ''gold'' [] []] \<and>
   generateContainerQoSResourceSpecOpts sample_service sample_rdt sample_blockio
     (sample_container [\<lparr>Name = ''bogus'', Class = ''x''\<rparr>, \<lparr>Name = ''rdt'', Class = ''nope''\<rparr>])
     sample_sandbox = Inl (UnknownQoSResourceType ''bogus'')"
  by (simp add: generateContainerQoSResourceSpecOpts_def handleRdt_def handleBlockIO_def
      getContainerRdtClass_def getContainerBlockioClass_def classFromQosResources_def
      containerQoSResourceCheck_def rdtClassCheck_def blockioClassCheck_def
      sample_container_def sample_sandbox_def sample_service_def sample_rdt_def
      sample_blockio_def classFromAnnotations_def GetName_def
      QoSResourceRdt_def QoSResourceBlockio_def dummyContainerQoSResources_eq)

theorem unknown_class_not_ignored_witness:
  "IgnoreRdtNotEnabledErrors sample_service \<and> IgnoreBlockIONotEnabledErrors sample_service \<and>
   generateContainerQoSResourceSpecOpts sample_service sample_rdt sample_blockio
     (sample_container [\<lparr>Name = ''rdt'', Class = ''nope''\<rparr>]) sample_sandbox =
     Inl (FailedToSetRdtClass (InvalidRdtClass ''nope'')) \<and>
   generateContainerQoSResourceSpecOpts sample_service sample_rdt sample_blockio
     (sample_container [\<lparr>Name = ''blockio'', Class = ''nope''\<rparr>]) sample_sandbox =
     Inl (FailedToSetBlockioClass (InvalidBlockioClass ''nope'')) \<and>
   generateContainerQoSResourceSpecOpts sample_service (sample_rdt\<lparr>IsEnabled := False\<rparr>)
     sample_blockio (sample_container [\<lparr>Name = ''rdt'', Class = ''gold''\<rparr>]) sample_sandbox =
     Inr [] \<and>
   generateContainerQoSResourceSpecOpts sample_service sample_rdt
     (sample_blockio\<lparr>IsEnabled := False\<rparr>)
     (sample_container [\<lparr>Name = ''blockio'', Class = ''fast''\<rparr>]) sample_sandbox = Inr []"
proof -
  let ?rdt_nope = "\<lparr>Name = ''rdt'', Class = ''nope''\<rparr>"
  let ?blockio_nope = "\<lparr>Name = ''blockio'', Class = ''nope''\<rparr>"
  let ?gold = "\<lparr>Name = ''rdt'', Class = ''gold''\<rparr>"
  let ?fast = "\<lparr>Name = ''blockio'', Class = ''fast''\<rparr>"
  have flags: "sample_service\<lparr>IgnoreRdtNotEnabledErrors := True\<rparr> = sample_service"
    "sample_service\<lparr>IgnoreBlockIONotEnabledErrors := True\<rparr> = sample_service"
    "IgnoreRdtNotEnabledErrors sample_service" "IgnoreBlockIONotEnabledErrors sample_service"
    by (simp_all add: sample_service_def)
  have h1: "containerQoSResourcesScan (QosResources (sample_container [?rdt_nope])) = None \<and>
      QosResources (sample_container [?rdt_nope]) = [] @ ?rdt_nope # [] \<and>
      (\<forall>q \<in> set []. Name q \<noteq> Name ?rdt_nope) \<and>
      Name ?rdt_nope = QoSResourceRdt \<and> IsEnabled sample_rdt \<and>
      \<not> ClassExists sample_rdt (Class ?rdt_nope)"
    by (simp add: sample_container_def containerQoSResourceCheck_def QoSResourceRdt_def
        sample_rdt_def)
  have h2: "containerQoSResourcesScan (QosResources (sample_container [?blockio_nope])) = None \<and>
      QosResources (sample_container [?blockio_nope]) = [] @ ?blockio_nope # [] \<and>
      (\<forall>q \<in> set []. Name q \<noteq> Name ?blockio_nope) \<and>
      Name ?blockio_nope = QoSResourceBlockio \<and> IsEnabled sample_blockio \<and>
      \<not> ClassExists sample_blockio (Class ?blockio_nope) \<and>
      handleRdt sample_service sample_rdt (sample_container [?blockio_nope]) sample_sandbox [] =
        Inr ([] :: nat SpecOpts list)"
    by (simp add: sample_container_def containerQoSResourceCheck_def QoSResourceRdt_def
        QoSResourceBlockio_def sample_blockio_def handleRdt_def getContainerRdtClass_def
        classFromQosResources_def rdtClassCheck_def sample_rdt_def classFromAnnotations_def
        sample_sandbox_def)
  have h5: "containerQoSResourcesScan (QosResources (sample_container [?gold])) = None \<and>
      \<not> IsEnabled (sample_rdt\<lparr>IsEnabled := False\<rparr>) \<and> IgnoreRdtNotEnabledErrors sample_service"
    using flags(3) by (simp add: sample_container_def containerQoSResourceCheck_def QoSResourceRdt_def)
  have h6: "containerQoSResourcesScan (QosResources (sample_container [?fast])) = None \<and>
      \<not> IsEnabled (sample_blockio\<lparr>IsEnabled := False\<rparr>) \<and>
      IgnoreBlockIONotEnabledErrors sample_service"
    using flags(4)
    by (simp add: sample_container_def containerQoSResourceCheck_def QoSResourceRdt_def
        QoSResourceBlockio_def)
  note rdt_case =
    unknown_class_not_ignored[where ignore = True and c = sample_service
      and blockio = sample_blockio and sandboxConfig = sample_sandbox,
      THEN conjunct1, rule_format, OF h1]
  note blockio_case =
    unknown_class_not_ignored[where ignore = True,
      THEN conjunct2, THEN conjunct1, rule_format, OF h2]
  note rdt_ignored =
    unknown_class_not_ignored[where blockio = sample_blockio and sandboxConfig = sample_sandbox,
      THEN conjunct2, THEN conjunct2, THEN conjunct2, THEN conjunct2, THEN conjunct1,
      rule_format, OF h5]
  note blockio_ignored =
    unknown_class_not_ignored[where rdt = sample_rdt and sandboxConfig = sample_sandbox,
      THEN conjunct2, THEN conjunct2, THEN conjunct2, THEN conjunct2, THEN conjunct2,
      rule_format, OF h6]
  have g5: "generateContainerQoSResourceSpecOpts sample_service (sample_rdt\<lparr>IsEnabled := False\<rparr>)
      sample_blockio (sample_container [?gold]) sample_sandbox = Inr []"
    using rdt_ignored sample_blocks_idle(4) by simp
  have "handleRdt sample_service sample_rdt (sample_container [?fast]) sample_sandbox [] =
      Inr ([] :: nat SpecOpts list)"
    by (rule sample_blocks_idle(3))
  then have g6: "generateContainerQoSResourceSpecOpts sample_service sample_rdt
      (sample_blockio\<lparr>IsEnabled := False\<rparr>) (sample_container [?fast]) sample_sandbox = Inr []"
    using blockio_ignored by simp
  show ?thesis
    using rdt_case blockio_case g5 g6 flags by simp
qed

subsection \<open>Order of the returned mutations\<close>

lemma QoSResourceRdt_neq_Blockio: "QoSResourceRdt \<noteq> QoSResourceBlockio"
  by (simp add: QoSResourceRdt_def QoSResourceBlockio_def)

lemma classFromQosResources_swap:
  assumes "Name a \<noteq> Name b"
  shows "classFromQosResources n (pre @ a # b # post) =
         classFromQosResources n (pre @ b # a # post)"
  using assms by (auto simp: classFromQosResources_eq)

lemma containerQoSResourcesScan_swap:
  "containerQoSResourcesScan (pre @ a # b # post) = None \<longleftrightarrow>
   containerQoSResourcesScan (pre @ b # a # post) = None"
  by (auto simp: containerQoSResourcesScan_None_iff)

lemma getContainerRdtClass_requests:
  assumes "classFromQosResources QoSResourceRdt rs' = classFromQosResources QoSResourceRdt rs"
  shows "getContainerRdtClass rdt (config\<lparr>QosResources := rs'\<rparr>) sandboxConfig =
         getContainerRdtClass rdt (config\<lparr>QosResources := rs\<rparr>) sandboxConfig"
  using assms by (simp add: getContainerRdtClass_def Let_def split: prod.splits)

lemma getContainerBlockioClass_requests:
  assumes "classFromQosResources QoSResourceBlockio rs' =
           classFromQosResources QoSResourceBlockio rs"
  shows "getContainerBlockioClass blockio (config\<lparr>QosResources := rs'\<rparr>) sandboxConfig =
         getContainerBlockioClass blockio (config\<lparr>QosResources := rs\<rparr>) sandboxConfig"
  using assms by (simp add: getContainerBlockioClass_def Let_def split: prod.splits)

lemma generateContainerQoSResourceSpecOpts_swap:
  fixes blockio :: "'b blockio_backend"
  assumes "Name a \<noteq> Name b"
    and "generateContainerQoSResourceSpecOpts c rdt blockio
           (config\<lparr>QosResources := pre @ a # b # post\<rparr>) sandboxConfig = Inr opts"
  shows "generateContainerQoSResourceSpecOpts c rdt blockio
           (config\<lparr>QosResources := pre @ b # a # post\<rparr>) sandboxConfig = Inr opts"
proof -
  let ?ab = "config\<lparr>QosResources := pre @ a # b # post\<rparr>"
  let ?ba = "config\<lparr>QosResources := pre @ b # a # post\<rparr>"
  have scan_ab: "containerQoSResourcesScan (QosResources ?ab) = None"
    using assms(2) by (simp add: generateContainerQoSResourceSpecOpts_def split: option.splits)
  then have scan_ba: "containerQoSResourcesScan (QosResources ?ba) = None"
    using containerQoSResourcesScan_swap[of pre a b post] by simp
  have "getContainerRdtClass rdt ?ba sandboxConfig = getContainerRdtClass rdt ?ab sandboxConfig"
    using assms(1) by (intro getContainerRdtClass_requests classFromQosResources_swap) simp
  then have rdt: "handleRdt c rdt ?ba sandboxConfig ([] :: 'b SpecOpts list) =
      handleRdt c rdt ?ab sandboxConfig []"
    by (simp add: handleRdt_def)
  have "getContainerBlockioClass blockio ?ba sandboxConfig =
      getContainerBlockioClass blockio ?ab sandboxConfig"
    using assms(1) by (intro getContainerBlockioClass_requests classFromQosResources_swap) simp
  then have blockio: "handleBlockIO c blockio ?ba sandboxConfig [] =
      handleBlockIO c blockio ?ab sandboxConfig []"
    by (simp add: handleBlockIO_def)
  show ?thesis
    using assms(2) scan_ab scan_ba
    by (simp add: generateContainerQoSResourceSpecOpts_blocks rdt blockio split: sum.splits)
qed

text \<open>
  Claim C6, as amended. For every container config on which generation succeeds, the
  returned mutations appear in a fixed order: what the RDT block appended (nothing, or one
  RDT mutation) comes first, what the block-I/O block appended (nothing, or one block-I/O
  mutation) comes second. The order does not follow the order in which the requests are
  scanned: exchanging an adjacent RDT request and block-I/O request on the config leaves
  the returned list as it was.
\<close>

theorem mutation_order_is_fixed:
  fixes blockio :: "'b blockio_backend"
  shows
  "(generateContainerQoSResourceSpecOpts c rdt blockio config sandboxConfig = Inr opts \<longrightarrow>
      (\<exists>ro bo. opts = ro @ bo \<and>
         handleRdt c rdt config sandboxConfig [] = Inr ro \<and>
         handleBlockIO c blockio config sandboxConfig [] = Inr bo \<and>
         (ro = [] \<or> (\<exists>cls. ro = [WithRdt cls [] []])) \<and>
         (bo = [] \<or> (\<exists>linuxBlockIO. bo = [WithBlockIO linuxBlockIO])))) \<and>
   (Name a = QoSResourceRdt \<and> Name b = QoSResourceBlockio \<longrightarrow>
      (generateContainerQoSResourceSpecOpts c rdt blockio
         (config\<lparr>QosResources := pre @ a # b # post\<rparr>) sandboxConfig = Inr opts) =
      (generateContainerQoSResourceSpecOpts c rdt blockio
         (config\<lparr>QosResources := pre @ b # a # post\<rparr>) sandboxConfig = Inr opts))"
proof (intro conjI impI)
  assume ok: "generateContainerQoSResourceSpecOpts c rdt blockio config sandboxConfig = Inr opts"
  then obtain ro bo where ro: "handleRdt c rdt config sandboxConfig [] = Inr ro"
    and bo: "handleBlockIO c blockio config sandboxConfig [] = Inr bo"
    and opts: "opts = ro @ bo"
    by (auto simp: generateContainerQoSResourceSpecOpts_blocks split: option.splits sum.splits)
  show "\<exists>ro bo. opts = ro @ bo \<and>
         handleRdt c rdt config sandboxConfig [] = Inr ro \<and>
         handleBlockIO c blockio config sandboxConfig [] = Inr bo \<and>
         (ro = [] \<or> (\<exists>cls. ro = [WithRdt cls [] []])) \<and>
         (bo = [] \<or> (\<exists>linuxBlockIO. bo = [WithBlockIO linuxBlockIO]))"
    using ro bo opts handleRdt_shape[OF ro] handleBlockIO_shape[OF bo] by blast
next
  assume "Name a = QoSResourceRdt \<and> Name b = QoSResourceBlockio"
  then have neq: "Name a \<noteq> Name b" "Name b \<noteq> Name a"
    using QoSResourceRdt_neq_Blockio by auto
  show "(generateContainerQoSResourceSpecOpts c rdt blockio
         (config\<lparr>QosResources := pre @ a # b # post\<rparr>) sandboxConfig = Inr opts) =
      (generateContainerQoSResourceSpecOpts c rdt blockio
         (config\<lparr>QosResources := pre @ b # a # post\<rparr>) sandboxConfig = Inr opts)"
    using generateContainerQoSResourceSpecOpts_swap[OF neq(1)]
      generateContainerQoSResourceSpecOpts_swap[OF neq(2)]
    by blast
qed

text \<open>
  Claim C6 as stated fails: on a config whose block-I/O request precedes its RDT request,
  the RDT mutation is still returned first.
\<close>

theorem mutation_order_counterexample:
  "generateContainerQoSResourceSpecOpts sample_service sample_rdt sample_blockio
     (sample_container [\<lparr>Name = ''blockio'', Class = ''fast''\<rparr>, \<lparr>Name = ''rdt'', Class = ''gold''\<rparr>])
     sample_sandbox = Inr [WithRdt ''gold'' [] [], WithBlockIO 800]"
  by (simp add: generateContainerQoSResourceSpecOpts_def handleRdt_def handleBlockIO_def
      getContainerRdtClass_def getContainerBlockioClass_def classFromQosResources_def
      containerQoSResourceCheck_def rdtClassCheck_def blockioClassCheck_def
      sample_container_def sample_sandbox_def sample_service_def sample_rdt_def
      sample_blockio_def QoSResourceRdt_def QoSResourceBlockio_def)

theorem mutation_order_is_fixed_witness:
  "generateContainerQoSResourceSpecOpts sample_service sample_rdt sample_blockio
     (sample_container [\<lparr>Name = ''rdt'', Class = ''gold''\<rparr>, \<lparr>Name = ''blockio'', Class = ''fast''\<rparr>])
     sample_sandbox = Inr [WithRdt ''gold'' [] [], WithBlockIO 800] \<and>
   generateContainerQoSResourceSpecOpts sample_service sample_rdt sample_blockio
     (sample_container [\<lparr>Name = ''blockio'', Class = ''fast''\<rparr>, \<lparr>Name = ''rdt'', Class = ''gold''\<rparr>])
     sample_sandbox = Inr [WithRdt ''gold'' [] [], WithBlockIO 800] \<and>
   (\<exists>ro bo. [WithRdt ''gold'' [] [], WithBlockIO 800] = ro @ bo \<and>
      handleRdt sample_service sample_rdt
        (sample_container [\<lparr>Name = ''rdt'', Class = ''gold''\<rparr>, \<lparr>Name = ''blockio'', Class = ''fast''\<rparr>])
        sample_sandbox [] = Inr ro \<and>
      handleBlockIO sample_service sample_blockio
        (sample_container [\<lparr>Name = ''rdt'', Class = ''gold''\<rparr>, \<lparr>Name = ''blockio'', Class = ''fast''\<rparr>])
        sample_sandbox [] = Inr bo)"
proof -
  let ?gold = "\<lparr>Name = ''rdt'', Class = ''gold''\<rparr>"
  let ?fast = "\<lparr>Name = ''blockio'', Class = ''fast''\<rparr>"
  let ?opts = "[WithRdt ''gold'' [] [], WithBlockIO (800 :: nat)]"
  have run: "generateContainerQoSResourceSpecOpts sample_service sample_rdt sample_blockio
      (sample_container [?gold, ?fast]) sample_sandbox = Inr ?opts"
    by (simp add: generateContainerQoSResourceSpecOpts_def handleRdt_def handleBlockIO_def
        getContainerRdtClass_def getContainerBlockioClass_def classFromQosResources_def
        containerQoSResourceCheck_def rdtClassCheck_def blockioClassCheck_def
        sample_container_def sample_sandbox_def sample_service_def sample_rdt_def
        sample_blockio_def QoSResourceRdt_def QoSResourceBlockio_def)
  have names: "Name ?gold = QoSResourceRdt \<and> Name ?fast = QoSResourceBlockio"
    by (simp add: QoSResourceRdt_def QoSResourceBlockio_def)
  have upd: "(sample_container rs)\<lparr>QosResources := rs'\<rparr> = sample_container rs'" for rs rs'
    by (simp add: sample_container_def)
  note shape = mutation_order_is_fixed[THEN conjunct1, rule_format, OF run]
  note swap =
    mutation_order_is_fixed[where config = "sample_container []" and pre = "[]" and post = "[]"
      and c = sample_service and rdt = sample_rdt and blockio = sample_blockio
      and sandboxConfig = sample_sandbox and opts = ?opts,
      THEN conjunct2, rule_format, OF names]
  have swapped: "generateContainerQoSResourceSpecOpts sample_service sample_rdt sample_blockio
      (sample_container [?fast, ?gold]) sample_sandbox = Inr ?opts"
    using swap run by (simp add: upd)
  show ?thesis
    using run swapped shape by blast
qed

subsection \<open>Dependence on the inputs and the back-end state\<close>

lemma getContainerRdtClass_agree:
  assumes "IsEnabled rdt' = IsEnabled rdt"
    and "\<forall>cls. ClassExists rdt' cls = ClassExists rdt cls"
    and "ContainerClassFromAnnotations rdt' (GetName (Metadata config)) (Annotations config)
           (pod_Annotations sandboxConfig) =
         ContainerClassFromAnnotations rdt (GetName (Metadata config)) (Annotations config)
           (pod_Annotations sandboxConfig)"
    and "GetName (Metadata config') = GetName (Metadata config)"
    and "Annotations config' = Annotations config"
    and "QosResources config' = QosResources config"
    and "pod_Annotations sandboxConfig' = pod_Annotations sandboxConfig"
  shows "getContainerRdtClass rdt' config' sandboxConfig' =
         getContainerRdtClass rdt config sandboxConfig"
  using assms
  by (simp add: getContainerRdtClass_def rdtClassCheck_def Let_def split: prod.splits option.splits)

lemma getContainerBlockioClass_agree:
  assumes "IsEnabled blockio' = IsEnabled blockio"
    and "\<forall>cls. ClassExists blockio' cls = ClassExists blockio cls"
    and "ContainerClassFromAnnotations blockio' (GetName (Metadata config)) (Annotations config)
           (pod_Annotations sandboxConfig) =
         ContainerClassFromAnnotations blockio (GetName (Metadata config)) (Annotations config)
           (pod_Annotations sandboxConfig)"
    and "GetName (Metadata config') = GetName (Metadata config)"
    and "Annotations config' = Annotations config"
    and "QosResources config' = QosResources config"
    and "pod_Annotations sandboxConfig' = pod_Annotations sandboxConfig"
  shows "getContainerBlockioClass blockio' config' sandboxConfig' =
         getContainerBlockioClass blockio config sandboxConfig"
  using assms
  by (simp add: getContainerBlockioClass_def blockioClassCheck_def Let_def
      split: prod.splits option.splits)

text \<open>
  Claim C9. Running \<open>generateContainerQoSResourceSpecOpts\<close> twice with the same container
  config, sandbox config, catalog and back-end state produces identical results, hence
  identical ordered mutation sequences. The embedding is a function of its arguments: the
  code reads no other state (the placeholder catalogs are constant once initialised) and
  ranges over the request slice only, never over a map. The theorem states what "the same"
  has to cover: two runs agree as soon as the flags, the answers of the two back-ends, the
  container name, the two annotation maps and the request list agree; nothing else of the
  configs (the metadata record itself, the sandbox's own requests) is read.
\<close>

theorem generation_is_deterministic:
  fixes blockio blockio' :: "'b blockio_backend"
  assumes "IgnoreRdtNotEnabledErrors c' = IgnoreRdtNotEnabledErrors c"
    and "IgnoreBlockIONotEnabledErrors c' = IgnoreBlockIONotEnabledErrors c"
    and "IsEnabled rdt' = IsEnabled rdt"
    and "\<forall>cls. ClassExists rdt' cls = ClassExists rdt cls"
    and "ContainerClassFromAnnotations rdt' (GetName (Metadata config)) (Annotations config)
           (pod_Annotations sandboxConfig) =
         ContainerClassFromAnnotations rdt (GetName (Metadata config)) (Annotations config)
           (pod_Annotations sandboxConfig)"
    and "IsEnabled blockio' = IsEnabled blockio"
    and "\<forall>cls. ClassExists blockio' cls = ClassExists blockio cls"
    and "ContainerClassFromAnnotations blockio' (GetName (Metadata config)) (Annotations config)
           (pod_Annotations sandboxConfig) =
         ContainerClassFromAnnotations blockio (GetName (Metadata config)) (Annotations config)
           (pod_Annotations sandboxConfig)"
    and "\<forall>cls. ClassNameToLinuxOCI blockio' cls = ClassNameToLinuxOCI blockio cls"
    and "GetName (Metadata config') = GetName (Metadata config)"
    and "Annotations config' = Annotations config"
    and "QosResources config' = QosResources config"
    and "pod_Annotations sandboxConfig' = pod_Annotations sandboxConfig"
  shows "generateContainerQoSResourceSpecOpts c' rdt' blockio' config' sandboxConfig' =
         generateContainerQoSResourceSpecOpts c rdt blockio config sandboxConfig"
proof -
  have rdt_class: "getContainerRdtClass rdt' config' sandboxConfig' =
      getContainerRdtClass rdt config sandboxConfig"
    using assms(3,4,5,10,11,12,13) by (rule getContainerRdtClass_agree)
  have blockio_class: "getContainerBlockioClass blockio' config' sandboxConfig' =
      getContainerBlockioClass blockio config sandboxConfig"
    using assms(6,7,8,10,11,12,13) by (rule getContainerBlockioClass_agree)
  have rdt_block: "handleRdt c' rdt' config' sandboxConfig' specOpts =
      handleRdt c rdt config sandboxConfig specOpts" for specOpts :: "'b SpecOpts list"
    using assms(1,3) by (simp add: handleRdt_def rdt_class split: prod.splits option.splits)
  have blockio_block: "handleBlockIO c' blockio' config' sandboxConfig' specOpts =
      handleBlockIO c blockio config sandboxConfig specOpts" for specOpts
    using assms(2,6,9)
    by (simp add: handleBlockIO_def blockio_class split: prod.splits option.splits)
  show ?thesis
    using assms(12)
    by (simp add: generateContainerQoSResourceSpecOpts_def rdt_block blockio_block
        split: option.splits sum.splits)
qed

theorem generation_is_deterministic_witness:
  "generateContainerQoSResourceSpecOpts sample_service sample_rdt sample_blockio
     \<lparr>Metadata = None, Annotations = Map.empty,
      QosResources = [\<lparr>Name = ''rdt'', Class = ''gold''\<rparr>, \<lparr>Name = ''blockio'', Class = ''slow''\<rparr>]\<rparr>
     \<lparr>pod_Annotations = Map.empty, pod_QosResources = [\<lparr>Name = ''net'', Class = ''10M''\<rparr>]\<rparr> =
   generateContainerQoSResourceSpecOpts sample_service sample_rdt sample_blockio
     \<lparr>Metadata = Some \<lparr>meta_Name = []\<rparr>, Annotations = Map.empty,
      QosResources = [\<lparr>Name = ''rdt'', Class = ''gold''\<rparr>, \<lparr>Name = ''blockio'', Class = ''slow''\<rparr>]\<rparr>
     \<lparr>pod_Annotations = Map.empty, pod_QosResources = []\<rparr> \<and>
   generateContainerQoSResourceSpecOpts sample_service sample_rdt sample_blockio
     \<lparr>Metadata = Some \<lparr>meta_Name = []\<rparr>, Annotations = Map.empty,
      QosResources = [\<lparr>Name = ''rdt'', Class = ''gold''\<rparr>, \<lparr>Name = ''blockio'', Class = ''slow''\<rparr>]\<rparr>
     \<lparr>pod_Annotations = Map.empty, pod_QosResources = []\<rparr> =
     Inr [WithRdt ''gold'' [] [], WithBlockIO 100]"
proof -
  let ?rs = "[\<lparr>Name = ''rdt'', Class = ''gold''\<rparr>, \<lparr>Name = ''blockio'', Class = ''slow''\<rparr>]"
  let ?config' = "\<lparr>Metadata = None, Annotations = Map.empty, QosResources = ?rs\<rparr>"
  let ?config = "\<lparr>Metadata = Some \<lparr>meta_Name = []\<rparr>, Annotations = Map.empty, QosResources = ?rs\<rparr>"
  let ?sandbox' = "\<lparr>pod_Annotations = Map.empty, pod_QosResources = [\<lparr>Name = ''net'', Class = ''10M''\<rparr>]\<rparr>"
  let ?sandbox = "\<lparr>pod_Annotations = Map.empty, pod_QosResources = []\<rparr>"
  have same: "generateContainerQoSResourceSpecOpts sample_service sample_rdt sample_blockio
      ?config' ?sandbox' =
    generateContainerQoSResourceSpecOpts sample_service sample_rdt sample_blockio
      ?config ?sandbox"
    by (rule generation_is_deterministic) (simp_all add: GetName_def)
  have run: "generateContainerQoSResourceSpecOpts sample_service sample_rdt sample_blockio
      ?config ?sandbox = Inr [WithRdt ''gold'' [] [], WithBlockIO 100]"
    by (simp add: generateContainerQoSResourceSpecOpts_def handleRdt_def handleBlockIO_def
        getContainerRdtClass_def getContainerBlockioClass_def classFromQosResources_def
        containerQoSResourceCheck_def rdtClassCheck_def blockioClassCheck_def
        sample_service_def sample_rdt_def sample_blockio_def QoSResourceRdt_def
        QoSResourceBlockio_def)
  show ?thesis
    using same run by simp
qed

subsection \<open>The network class catalog\<close>

lemma generateCniQoSResourceScan_first:
  assumes "\<forall>q \<in> set pre. Name q \<noteq> QoSResourceNet" and "Name r = QoSResourceNet"
  shows "generateCniQoSResourceScan cniQoSResource (pre @ r # post) =
           (case cniQoSResource (Class r) of
              None \<Rightarrow> Inl (UnknownQuotedClass QoSResourceNet (Class r))
            | Some caps \<Rightarrow>
                (case BandWidth caps of
                   Some bw \<Rightarrow> Inr [WithCapabilityBandWidth bw]
                 | None \<Rightarrow> Inr []))"
  using assms by (induction pre) (simp_all add: Let_def)

lemma generateCniQoSResourceScan_none:
  assumes "\<forall>q \<in> set rs. Name q \<noteq> QoSResourceNet"
  shows "generateCniQoSResourceScan cniQoSResource rs = Inr []"
  using assms by (induction rs) simp_all

text \<open>
  Claim C7, as amended. For every sandbox config with a "net" QoS request,
  \<open>generateCniQoSResourceOpts\<close> resolves the class of the first such request by direct lookup
  in the net class catalog, independent of the annotations and of the requests after it. A
  class present in the catalog yields one sandbox-level bandwidth namespace option when its
  catalog entry carries bandwidth parameters, and no option when it carries none; a class
  absent from the catalog makes the function fail with the unknown-class error. A config
  without a "net" request yields no option. No container-level mutation is produced: the
  sandbox's \<open>generateSandboxQoSResourceSpecOpts\<close> returns the empty list whenever it
  succeeds.
\<close>

theorem net_class_resolved_by_catalog_lookup:
  "(pod_QosResources config = pre @ r # post \<and> (\<forall>q \<in> set pre. Name q \<noteq> QoSResourceNet) \<and>
    Name r = QoSResourceNet \<and> cniQoSResource (Class r) = None \<longrightarrow>
      generateCniQoSResourceOpts cniQoSResource config =
        Inl (UnknownQuotedClass QoSResourceNet (Class r))) \<and>
   (pod_QosResources config = pre @ r # post \<and> (\<forall>q \<in> set pre. Name q \<noteq> QoSResourceNet) \<and>
    Name r = QoSResourceNet \<and> cniQoSResource (Class r) = Some caps \<and> BandWidth caps = Some bw \<longrightarrow>
      generateCniQoSResourceOpts cniQoSResource config = Inr [WithCapabilityBandWidth bw]) \<and>
   (pod_QosResources config = pre @ r # post \<and> (\<forall>q \<in> set pre. Name q \<noteq> QoSResourceNet) \<and>
    Name r = QoSResourceNet \<and> cniQoSResource (Class r) = Some caps \<and> BandWidth caps = None \<longrightarrow>
      generateCniQoSResourceOpts cniQoSResource config = Inr []) \<and>
   ((\<forall>q \<in> set (pod_QosResources config). Name q \<noteq> QoSResourceNet) \<longrightarrow>
      generateCniQoSResourceOpts cniQoSResource config = Inr []) \<and>
   generateCniQoSResourceOpts cniQoSResource (config\<lparr>pod_Annotations := a\<rparr>) =
     generateCniQoSResourceOpts cniQoSResource config \<and>
   ((generateSandboxQoSResourceSpecOpts_cni config :: error + 'b SpecOpts list) = Inr opts \<longrightarrow>
      opts = [])"
proof (intro conjI impI)
  assume "pod_QosResources config = pre @ r # post \<and> (\<forall>q \<in> set pre. Name q \<noteq> QoSResourceNet) \<and>
    Name r = QoSResourceNet \<and> cniQoSResource (Class r) = None"
  then show "generateCniQoSResourceOpts cniQoSResource config =
      Inl (UnknownQuotedClass QoSResourceNet (Class r))"
    by (simp add: generateCniQoSResourceOpts_def generateCniQoSResourceScan_first)
next
  assume "pod_QosResources config = pre @ r # post \<and> (\<forall>q \<in> set pre. Name q \<noteq> QoSResourceNet) \<and>
    Name r = QoSResourceNet \<and> cniQoSResource (Class r) = Some caps \<and> BandWidth caps = Some bw"
  then show "generateCniQoSResourceOpts cniQoSResource config = Inr [WithCapabilityBandWidth bw]"
    by (simp add: generateCniQoSResourceOpts_def generateCniQoSResourceScan_first)
next
  assume "pod_QosResources config = pre @ r # post \<and> (\<forall>q \<in> set pre. Name q \<noteq> QoSResourceNet) \<and>
    Name r = QoSResourceNet \<and> cniQoSResource (Class r) = Some caps \<and> BandWidth caps = None"
  then show "generateCniQoSResourceOpts cniQoSResource config = Inr []"
    by (simp add: generateCniQoSResourceOpts_def generateCniQoSResourceScan_first)
next
  assume "\<forall>q \<in> set (pod_QosResources config). Name q \<noteq> QoSResourceNet"
  then show "generateCniQoSResourceOpts cniQoSResource config = Inr []"
    by (simp add: generateCniQoSResourceOpts_def generateCniQoSResourceScan_none)
next
  show "generateCniQoSResourceOpts cniQoSResource (config\<lparr>pod_Annotations := a\<rparr>) =
      generateCniQoSResourceOpts cniQoSResource config"
    by (simp add: generateCniQoSResourceOpts_def)
next
  assume "(generateSandboxQoSResourceSpecOpts_cni config :: error + 'b SpecOpts list) = Inr opts"
  then show "opts = []"
    by (simp add: generateSandboxQoSResourceSpecOpts_cni_def split: option.splits)
qed

text \<open>
  Claim C7 as stated fails: a class present in the catalog whose entry has no bandwidth
  parameters (a nil \<^verbatim>\<open>BandWidth\<close>) yields no namespace option; and a "net" request with an
  absent class does not make the function fail when an earlier "net" request names a class
  of the catalog, since the loop stops at the first one.
\<close>

theorem net_class_counterexample:
  "generateCniQoSResourceOpts [''gold'' \<mapsto> \<lparr>Capacity = 5, BandWidth = (None :: nat option)\<rparr>]
     (sample_sandbox\<lparr>pod_QosResources := [\<lparr>Name = ''net'', Class = ''gold''\<rparr>]\<rparr>) = Inr [] \<and>
   generateCniQoSResourceOpts [''gold'' \<mapsto> \<lparr>Capacity = 5, BandWidth = Some (100 :: nat)\<rparr>]
     (sample_sandbox\<lparr>pod_QosResources :=
        [\<lparr>Name = ''net'', Class = ''gold''\<rparr>, \<lparr>Name = ''net'', Class = ''nope''\<rparr>]\<rparr>) =
     Inr [WithCapabilityBandWidth 100]"
  by (simp add: generateCniQoSResourceOpts_def QoSResourceNet_def)

theorem net_class_resolved_by_catalog_lookup_witness:
  "generateCniQoSResourceOpts [''gold'' \<mapsto> \<lparr>Capacity = 5, BandWidth = Some (100 :: nat)\<rparr>]
     (sample_sandbox\<lparr>pod_QosResources :=
        [\<lparr>Name = ''podres-1'', Class = ''qos-a''\<rparr>, \<lparr>Name = ''net'', Class = ''gold''\<rparr>]\<rparr>) =
     Inr [WithCapabilityBandWidth 100] \<and>
   generateCniQoSResourceOpts [''gold'' \<mapsto> \<lparr>Capacity = 5, BandWidth = Some (100 :: nat)\<rparr>]
     (sample_sandbox\<lparr>pod_QosResources :=
        [\<lparr>Name = ''podres-1'', Class = ''qos-a''\<rparr>, \<lparr>Name = ''net'', Class = ''nope''\<rparr>]\<rparr>) =
     Inl (UnknownQuotedClass ''net'' ''nope'') \<and>
   generateCniQoSResourceOpts [''gold'' \<mapsto> \<lparr>Capacity = 5, BandWidth = (None :: nat option)\<rparr>]
     (sample_sandbox\<lparr>pod_QosResources :=
        [\<lparr>Name = ''podres-1'', Class = ''qos-a''\<rparr>, \<lparr>Name = ''net'', Class = ''gold''\<rparr>]\<rparr>) =
     Inr [] \<and>
   generateCniQoSResourceOpts [''gold'' \<mapsto> \<lparr>Capacity = 5, BandWidth = Some (100 :: nat)\<rparr>]
     (sample_sandbox\<lparr>pod_QosResources := [\<lparr>Name = ''podres-1'', Class = ''qos-a''\<rparr>]\<rparr>) = Inr [] \<and>
   (generateSandboxQoSResourceSpecOpts_cni
      (sample_sandbox\<lparr>pod_QosResources :=
         [\<lparr>Name = ''podres-1'', Class = ''qos-a''\<rparr>, \<lparr>Name = ''net'', Class = ''gold''\<rparr>]\<rparr>)
      :: error + nat SpecOpts list) = Inr []"
proof -
  let ?qos_a = "\<lparr>Name = ''podres-1'', Class = ''qos-a''\<rparr>"
  let ?gold = "\<lparr>Name = ''net'', Class = ''gold''\<rparr>"
  let ?nope = "\<lparr>Name = ''net'', Class = ''nope''\<rparr>"
  let ?with = "[''gold'' \<mapsto> \<lparr>Capacity = 5, BandWidth = Some (100 :: nat)\<rparr>]"
  let ?without = "[''gold'' \<mapsto> \<lparr>Capacity = 5, BandWidth = (None :: nat option)\<rparr>]"
  have h1: "pod_QosResources (sample_sandbox\<lparr>pod_QosResources := [?qos_a, ?nope]\<rparr>) =
      [?qos_a] @ ?nope # [] \<and> (\<forall>q \<in> set [?qos_a]. Name q \<noteq> QoSResourceNet) \<and>
      Name ?nope = QoSResourceNet \<and> ?with (Class ?nope) = None"
    by (simp add: QoSResourceNet_def)
  have h2: "pod_QosResources (sample_sandbox\<lparr>pod_QosResources := [?qos_a, ?gold]\<rparr>) =
      [?qos_a] @ ?gold # [] \<and> (\<forall>q \<in> set [?qos_a]. Name q \<noteq> QoSResourceNet) \<and>
      Name ?gold = QoSResourceNet \<and>
      ?with (Class ?gold) = Some \<lparr>Capacity = 5, BandWidth = Some 100\<rparr> \<and>
      BandWidth \<lparr>Capacity = 5, BandWidth = Some (100 :: nat)\<rparr> = Some 100"
    by (simp add: QoSResourceNet_def)
  have h3: "pod_QosResources (sample_sandbox\<lparr>pod_QosResources := [?qos_a, ?gold]\<rparr>) =
      [?qos_a] @ ?gold # [] \<and> (\<forall>q \<in> set [?qos_a]. Name q \<noteq> QoSResourceNet) \<and>
      Name ?gold = QoSResourceNet \<and>
      ?without (Class ?gold) = Some \<lparr>Capacity = 5, BandWidth = None\<rparr> \<and>
      BandWidth \<lparr>Capacity = 5, BandWidth = (None :: nat option)\<rparr> = None"
    by (simp add: QoSResourceNet_def)
  have h4: "\<forall>q \<in> set (pod_QosResources (sample_sandbox\<lparr>pod_QosResources := [?qos_a]\<rparr>)).
      Name q \<noteq> QoSResourceNet"
    by (simp add: QoSResourceNet_def)
  have h6: "(generateSandboxQoSResourceSpecOpts_cni
      (sample_sandbox\<lparr>pod_QosResources := [?qos_a, ?gold]\<rparr>) :: error + nat SpecOpts list) =
      Inr []"
    by (simp add: generateSandboxQoSResourceSpecOpts_cni_def sandboxQoSResourceCheck_cni_def
        QoSResourceNet_def dummyPodQoSResources_eq)
  note absent =
    net_class_resolved_by_catalog_lookup[where cniQoSResource = ?with and r = ?nope,
      THEN conjunct1, rule_format, OF h1]
  note present =
    net_class_resolved_by_catalog_lookup[where cniQoSResource = ?with and r = ?gold,
      THEN conjunct2, THEN conjunct1, rule_format, OF h2]
  note no_bandwidth =
    net_class_resolved_by_catalog_lookup[where cniQoSResource = ?without and r = ?gold,
      THEN conjunct2, THEN conjunct2, THEN conjunct1, rule_format, OF h3]
  note no_request =
    net_class_resolved_by_catalog_lookup[where cniQoSResource = ?with,
      THEN conjunct2, THEN conjunct2, THEN conjunct2, THEN conjunct1, THEN mp, OF h4]
  show ?thesis
    using absent present no_bandwidth no_request h6 by (simp add: QoSResourceNet_def)
qed

subsection \<open>Rebuilding the network class catalog\<close>

text \<open>
  Claim C5. For every network-plugin configuration exposing fewer than two configured
  networks, and for every configuration whose second network's raw text fails to parse,
  \<open>updateCniQoSResources\<close> returns an error and leaves the stored net class catalog
  unchanged. No partially built mapping is ever stored: whenever the call reports an error
  the catalog is the previous one, and when it reports none the catalog is the complete
  \<^verbatim>\<open>qos\<close> mapping decoded from the second network's text.
\<close>

theorem failed_rebuild_keeps_catalog:
  "(netplugin = Some cniConfig \<and> length (Networks cniConfig) < 2 \<longrightarrow>
      updateCniQoSResources unmarshal netplugin cniQoSResource =
        (cniQoSResource, Some NoNetworksConfigured)) \<and>
   (netplugin = Some cniConfig \<and> 2 \<le> length (Networks cniConfig) \<and>
    unmarshal (Source (Config (Networks cniConfig ! 1))) = Inl err \<longrightarrow>
      updateCniQoSResources unmarshal netplugin cniQoSResource =
        (cniQoSResource, Some (FailedToParseCniConfig err))) \<and>
   (snd (updateCniQoSResources unmarshal netplugin cniQoSResource) \<noteq> None \<longrightarrow>
      fst (updateCniQoSResources unmarshal netplugin cniQoSResource) = cniQoSResource) \<and>
   (snd (updateCniQoSResources unmarshal netplugin cniQoSResource) = None \<longrightarrow>
      (\<exists>cniConfig tmp. netplugin = Some cniConfig \<and> 2 \<le> length (Networks cniConfig) \<and>
         unmarshal (Source (Config (Networks cniConfig ! 1))) = Inr tmp \<and>
         fst (updateCniQoSResources unmarshal netplugin cniQoSResource) = Qos tmp))"
  by (auto simp: updateCniQoSResources_def getCniQoSResources_def Let_def
      split: option.splits sum.splits if_splits)

theorem failed_rebuild_keeps_catalog_witness:
  "updateCniQoSResources
     (\<lambda>raw. if raw = ''{}'' then Inr \<lparr>conf_Name = [], Qos = Map.empty\<rparr>
            else Inl (ExternalError ''unexpected end of JSON input''))
     (Some \<lparr>Networks = [\<lparr>Config = \<lparr>Source = ''{}''\<rparr>\<rparr>]\<rparr>)
     [''gold'' \<mapsto> \<lparr>Capacity = 5, BandWidth = Some (100 :: nat)\<rparr>] =
     ([''gold'' \<mapsto> \<lparr>Capacity = 5, BandWidth = Some 100\<rparr>], Some NoNetworksConfigured) \<and>
   updateCniQoSResources
     (\<lambda>raw. if raw = ''{}'' then Inr \<lparr>conf_Name = [], Qos = Map.empty\<rparr>
            else Inl (ExternalError ''unexpected end of JSON input''))
     (Some \<lparr>Networks = [\<lparr>Config = \<lparr>Source = ''{}''\<rparr>\<rparr>, \<lparr>Config = \<lparr>Source = ''{''\<rparr>\<rparr>]\<rparr>)
     [''gold'' \<mapsto> \<lparr>Capacity = 5, BandWidth = Some (100 :: nat)\<rparr>] =
     ([''gold'' \<mapsto> \<lparr>Capacity = 5, BandWidth = Some 100\<rparr>],
      Some (FailedToParseCniConfig (ExternalError ''unexpected end of JSON input'')))"
proof -
  let ?unmarshal = "\<lambda>raw. if raw = ''{}'' then Inr \<lparr>conf_Name = [], Qos = Map.empty\<rparr>
            else Inl (ExternalError ''unexpected end of JSON input'')"
  let ?one = "\<lparr>Networks = [\<lparr>Config = \<lparr>Source = ''{}''\<rparr>\<rparr>]\<rparr>"
  let ?two = "\<lparr>Networks = [\<lparr>Config = \<lparr>Source = ''{}''\<rparr>\<rparr>, \<lparr>Config = \<lparr>Source = ''{''\<rparr>\<rparr>]\<rparr>"
  let ?catalog = "[''gold'' \<mapsto> \<lparr>Capacity = 5, BandWidth = Some (100 :: nat)\<rparr>]"
  have h1: "Some ?one = Some ?one \<and> length (Networks ?one) < 2"
    by simp
  have h2: "Some ?two = Some ?two \<and> 2 \<le> length (Networks ?two) \<and>
      ?unmarshal (Source (Config (Networks ?two ! 1))) =
        (Inl (ExternalError ''unexpected end of JSON input'') :: error + nat QosConf)"
    by simp
  note too_few =
    failed_rebuild_keeps_catalog[where unmarshal = ?unmarshal and cniQoSResource = ?catalog,
      THEN conjunct1, rule_format, OF h1]
  note bad_text =
    failed_rebuild_keeps_catalog[where unmarshal = ?unmarshal and cniQoSResource = ?catalog,
      THEN conjunct2, THEN conjunct1, rule_format, OF h2]
  show ?thesis
    using too_few bad_text by simp
qed

subsection \<open>Network negotiation\<close>

text \<open>
  Claim C8, against the merge step modelled from the spec. When the agent's reply changes
  the bandwidth setting, leaves ports, labels and DNS untouched and names a class of the
  catalog, the merged configuration takes the agent's bandwidth value and keeps every
  other field from the draft; when the reply names a class that does not exist in the
  catalog, the negotiation fails with \<open>NegotiationRejected\<close> and no configuration is returned,
  the draft included.
\<close>

theorem negotiation_merge:
  "(adj_bandwidth reply = Some bw \<and> adj_portMappings reply = None \<and> adj_labels reply = None \<and>
    adj_dns reply = None \<and> adj_netClass reply = Some cls \<and> cniQoSResource cls \<noteq> None \<longrightarrow>
      (\<exists>merged. mergeAdjustedConfig cniQoSResource draft reply = Inr merged \<and>
         bandwidth merged = bw \<and> netClass merged = cls \<and>
         portMappings merged = portMappings draft \<and> labels merged = labels draft \<and>
         dns merged = dns draft)) \<and>
   (adj_netClass reply = Some cls \<and> cniQoSResource cls = None \<longrightarrow>
      mergeAdjustedConfig cniQoSResource draft reply = Inl (NegotiationRejected cls))"
  by (simp add: mergeAdjustedConfig_def overwrite_def)

theorem negotiation_merge_witness:
  "mergeAdjustedConfig [''gold'' \<mapsto> \<lparr>Capacity = 5, BandWidth = Some (100 :: nat)\<rparr>]
     \<lparr>portMappings = [(80, 8080)], bandwidth = ''10Mbps'', netClass = ''gold'',
      labels = [''tier'' \<mapsto> ''a''], dns = []\<rparr>
     \<lparr>adj_portMappings = None, adj_bandwidth = Some ''5Mbps'', adj_netClass = Some ''gold'',
      adj_labels = None, adj_dns = None\<rparr> =
     Inr \<lparr>portMappings = [(80, 8080)], bandwidth = ''5Mbps'', netClass = ''gold'',
          labels = [''tier'' \<mapsto> ''a''], dns = []\<rparr> \<and>
   mergeAdjustedConfig [''gold'' \<mapsto> \<lparr>Capacity = 5, BandWidth = Some (100 :: nat)\<rparr>]
     \<lparr>portMappings = [(80, 8080)], bandwidth = ''10Mbps'', netClass = ''gold'',
      labels = [''tier'' \<mapsto> ''a''], dns = []\<rparr>
     \<lparr>adj_portMappings = None, adj_bandwidth = Some ''5Mbps'', adj_netClass = Some ''nope'',
      adj_labels = None, adj_dns = None\<rparr> = Inl (NegotiationRejected ''nope'')"
proof -
  let ?catalog = "[''gold'' \<mapsto> \<lparr>Capacity = 5, BandWidth = Some (100 :: nat)\<rparr>]"
  let ?draft = "\<lparr>portMappings = [(80, 8080)], bandwidth = ''10Mbps'', netClass = ''gold'',
      labels = [''tier'' \<mapsto> ''a''], dns = []\<rparr>"
  let ?valid = "\<lparr>adj_portMappings = None, adj_bandwidth = Some ''5Mbps'',
      adj_netClass = Some ''gold'', adj_labels = None, adj_dns = None\<rparr>"
  let ?unknown = "\<lparr>adj_portMappings = None, adj_bandwidth = Some ''5Mbps'',
      adj_netClass = Some ''nope'', adj_labels = None, adj_dns = None\<rparr>"
  have h1: "adj_bandwidth ?valid = Some ''5Mbps'' \<and> adj_portMappings ?valid = None \<and>
      adj_labels ?valid = None \<and> adj_dns ?valid = None \<and> adj_netClass ?valid = Some ''gold'' \<and>
      ?catalog ''gold'' \<noteq> None"
    by simp
  have h2: "adj_netClass ?unknown = Some ''nope'' \<and> ?catalog ''nope'' = None"
    by simp
  note accepted =
    negotiation_merge[where cniQoSResource = ?catalog and draft = ?draft,
      THEN conjunct1, rule_format, OF h1]
  note rejected =
    negotiation_merge[where cniQoSResource = ?catalog and draft = ?draft,
      THEN conjunct2, rule_format, OF h2]
  from accepted obtain merged where
    m: "mergeAdjustedConfig ?catalog ?draft ?valid = Inr merged"
      "bandwidth merged = ''5Mbps''" "netClass merged = ''gold''"
      "portMappings merged = portMappings ?draft" "labels merged = labels ?draft"
      "dns merged = dns ?draft"
    by blast
  then have "merged = \<lparr>portMappings = [(80, 8080)], bandwidth = ''5Mbps'', netClass = ''gold'',
      labels = [''tier'' \<mapsto> ''a''], dns = []\<rparr>"
    by (cases merged) simp
  then show ?thesis
    using m(1) rejected by simp
qed

end
